theory Spec2Isabelle
  imports Complex_Main "HOL-Library.AList"
begin

section \<open>The Xilinx 7-series platform of nmigen (nmigen/vendor/xilinx\_7series.py)\<close>

text \<open>
  The platform lowers pin requests to vendor primitives, generates clock-domain-crossing
  synchronizers, and selects the build templates of one of two toolchains. The netlist
  objects it builds (signals, expressions, instances, modules) belong to the hardware
  description library; they are embedded here as plain data, with exactly the fields the
  platform code reads or writes. The program comes first, then the vocabulary of the
  properties with the example inputs, then the proofs.
\<close>

subsection \<open>Errors and sequencing\<close>

text \<open>
  Every exception the platform code can raise is a value. A failed \<^verbatim>\<open>assert\<close> is
  \<open>AssertionError\<close>; indexing an expression beyond its width is \<open>IndexError\<close>; reading a
  local variable that no branch has bound is \<open>UnboundLocalError\<close>; using \<^verbatim>\<open>None\<close> where
  an expression is needed is \<open>TypeError\<close>.
\<close>

datatype error =
    AssertionError
  | IndexError
  | UnboundLocalError
  | TypeError
  | ValueError
  | ZeroDivisionError
  | NotImplementedError

definition seq :: "error + 'a \<Rightarrow> ('a \<Rightarrow> error + 'b) \<Rightarrow> error + 'b" where
  "seq r f = (case r of Inl e \<Rightarrow> Inl e | Inr x \<Rightarrow> f x)"

definition local_var :: "'a option \<Rightarrow> error + 'a" where
  "local_var v = (case v of None \<Rightarrow> Inl UnboundLocalError | Some x \<Rightarrow> Inr x)"

definition not_none :: "'a option \<Rightarrow> error + 'a" where
  "not_none v = (case v of None \<Rightarrow> Inl TypeError | Some x \<Rightarrow> Inr x)"

subsection \<open>Signals, expressions, instances, modules\<close>

text \<open>
  An attribute value is a string. The synchronizers store \<^verbatim>\<open>str(delay * 1e9)\<close>, the
  text of a floating-point product: \<open>Str_of_float x\<close> stands for \<^verbatim>\<open>str(x)\<close>, with the
  product taken in the reals (the rounding of the floating-point product and the digits
  \<^verbatim>\<open>str\<close> prints are not modelled).
\<close>

datatype attr_value = Str string | Str_of_float real

text \<open>
  A signal, with the fields the constructor \<^verbatim>\<open>Signal(shape, name=, reset=, reset_less=,
  attrs=)\<close> sets. \<open>sig_attrs\<close> is the attribute dictionary, in insertion order;
  \<^verbatim>\<open>attrs[k] = v\<close> is \<open>AList.update k v\<close>.
\<close>

record signal =
  sig_name :: string
  sig_width :: nat
  sig_signed :: bool
  sig_reset :: int
  sig_reset_less :: bool
  sig_attrs :: "(string \<times> attr_value) list"

definition Signal :: "nat \<Rightarrow> string \<Rightarrow> signal" where
  "Signal w n = \<lparr>sig_name = n, sig_width = w, sig_signed = False, sig_reset = 0,
     sig_reset_less = False, sig_attrs = []\<rparr>"

text \<open>
  Expressions: a signal, a constant, \<^verbatim>\<open>~v\<close>, one bit \<^verbatim>\<open>v[bit]\<close>, and the clock and
  reset of a named domain.
\<close>

datatype val =
    Sig signal
  | Const nat
  | Invert val
  | Bit val nat
  | ClockSignal string
  | ResetSignal string

fun bits_for :: "nat \<Rightarrow> nat" where
  "bits_for n = (if n < 2 then 1 else Suc (bits_for (n div 2)))"

declare bits_for.simps [simp del]

fun len :: "val \<Rightarrow> nat" where
  "len (Sig s) = sig_width s"
| "len (Const n) = bits_for n"
| "len (Invert v) = len v"
| "len (Bit v n) = 1"
| "len (ClockSignal d) = 1"
| "len (ResetSignal d) = 1"

text \<open>\<^verbatim>\<open>v[bit]\<close> raises IndexError when \<open>bit\<close> is not below the width of \<open>v\<close>.\<close>

definition index :: "val \<Rightarrow> nat \<Rightarrow> error + val" where
  "index v b = (if b < len v then Inr (Bit v b) else Inl IndexError)"

datatype param = PStr string | PInt int

text \<open>
  \<^verbatim>\<open>Instance(type, p_X=.., a_X=.., i_X=.., o_X=..)\<close>: parameters, attributes, input and
  output port bindings, each in the order the call gives them.
\<close>

record inst =
  inst_type :: string
  inst_params :: "(string \<times> param) list"
  inst_attrs :: "(string \<times> string) list"
  inst_inputs :: "(string \<times> val) list"
  inst_outputs :: "(string \<times> val) list"

datatype stmt = Assign val val

record clock_domain =
  cd_name :: string
  cd_async_reset :: bool
  cd_local :: bool

text \<open>
  A module under construction: its submodules (\<^verbatim>\<open>m.submodules += x\<close> adds an anonymous
  one, \<^verbatim>\<open>m.submodules[n] = x\<close> a named one), its clock domains, and its statements, each
  with the domain it was added to (\<^verbatim>\<open>m.d.comb\<close> is the domain \<open>''comb''\<close>).
\<close>

record module =
  submodules :: "(string option \<times> inst) list"
  domains :: "clock_domain list"
  statements :: "(string \<times> stmt) list"

definition Module :: module where
  "Module = \<lparr>submodules = [], domains = [], statements = []\<rparr>"

definition add_submodule :: "module \<Rightarrow> string option \<Rightarrow> inst \<Rightarrow> module" where
  "add_submodule m n x = m\<lparr>submodules := submodules m @ [(n, x)]\<rparr>"

definition add_stmt :: "module \<Rightarrow> string \<Rightarrow> stmt \<Rightarrow> module" where
  "add_stmt m d s = m\<lparr>statements := statements m @ [(d, s)]\<rparr>"

definition add_domain :: "module \<Rightarrow> clock_domain \<Rightarrow> module" where
  "add_domain m cd = m\<lparr>domains := domains m @ [cd]\<rparr>"

definition set_attr :: "signal \<Rightarrow> string \<Rightarrow> attr_value \<Rightarrow> signal" where
  "set_attr s k v = s\<lparr>sig_attrs := AList.update k v (sig_attrs s)\<rparr>"

text \<open>
  The shape (width, signedness) of an expression, as \<^verbatim>\<open>Value.shape()\<close> gives it.
\<close>

fun shape :: "val \<Rightarrow> nat \<times> bool" where
  "shape (Sig s) = (sig_width s, sig_signed s)"
| "shape (Const n) = (bits_for n, False)"
| "shape (Invert v) = shape v"
| "shape (Bit v n) = (1, False)"
| "shape (ClockSignal d) = (1, False)"
| "shape (ResetSignal d) = (1, False)"

text \<open>
  \<^verbatim>\<open>"stage{}".format(index)\<close> and \<^verbatim>\<open>"{}_{}".format(pin.name, bit)\<close> print a number in
  decimal: \<open>str_nat\<close>.
\<close>

definition digit :: "nat \<Rightarrow> char" where
  "digit n = char_of (48 + n)"

fun str_nat :: "nat \<Rightarrow> string" where
  "str_nat n = (if n < 10 then [digit n] else str_nat (n div 10) @ [digit (n mod 10)])"

declare str_nat.simps [simp del]

subsection \<open>Pin requests and ports\<close>

text \<open>
  A pin request: name, direction (\<open>''i''\<close>, \<open>''o''\<close>, \<open>''oe''\<close> or \<open>''io''\<close>), width,
  serialization level, and the signals of the pin. Which of the signals a pin has depends
  on its direction and level; the code reads a signal only under the guard that makes it
  exist, and the record simply has them all.
\<close>

record pin =
  p_name :: string
  p_dir :: string
  p_width :: nat
  p_xdr :: nat
  p_i :: signal
  p_i0 :: signal
  p_i1 :: signal
  p_o :: signal
  p_o0 :: signal
  p_o1 :: signal
  p_oe :: signal
  p_i_clk :: signal
  p_o_clk :: signal

text \<open>A single-ended port: the signal \<^verbatim>\<open>port.io\<close>, one bit per pin.\<close>

record port =
  port_io :: signal

subsection \<open>Helpers of other modules\<close>

text \<open>
  Modelled from the spec: \<^verbatim>\<open>Signal.like(x, name_suffix=...)\<close> is a constructor of the
  hardware description library, which is not among the sources: a new signal of the shape,
  reset and attributes of \<open>x\<close>, named after \<open>x\<close> with the suffix.
\<close>

definition Signal_like :: "signal \<Rightarrow> string \<Rightarrow> signal" where
  "Signal_like x name_suffix = x\<lparr>sig_name := sig_name x @ name_suffix\<rparr>"

text \<open>
  Modelled from the spec: \<^verbatim>\<open>get_ineg\<close> is imported from nmigen/vendor/util.py, which is not
  among the sources. The spec has the inversion flags resolved before lowering and the
  inversion applied between the pin's value and the port-facing value. With the flag set, a
  new signal like \<open>x\<close> (name suffixed \<open>_n\<close>) is created and returned, and one
  combinational statement drives the pin's input signal \<open>x\<close> from \<^verbatim>\<open>~\<close> of the new one.
  With the flag clear \<open>x\<close> itself is returned and the module is unchanged.
\<close>

definition get_ineg :: "module \<Rightarrow> signal \<Rightarrow> bool \<Rightarrow> module \<times> signal" where
  "get_ineg m x invert =
     (if invert then
        (let x_neg = Signal_like x ''_n''
         in (add_stmt m ''comb'' (Assign (Sig x) (Invert (Sig x_neg))), x_neg))
      else (m, x))"

text \<open>
  Modelled from the spec: \<^verbatim>\<open>get_oneg\<close> is imported from nmigen/vendor/util.py as well. It is
  the counterpart for outputs: with the flag set, the new signal is driven from \<^verbatim>\<open>~\<close> of
  the pin's output signal \<open>x\<close> and returned.
\<close>

definition get_oneg :: "module \<Rightarrow> signal \<Rightarrow> bool \<Rightarrow> module \<times> signal" where
  "get_oneg m x invert =
     (if invert then
        (let x_neg = Signal_like x ''_n''
         in (add_stmt m ''comb'' (Assign (Sig x_neg) (Invert (Sig x))), x_neg))
      else (m, x))"

text \<open>
  Modelled from the spec: \<^verbatim>\<open>_check_feature\<close> is a method of the base class
  \<^verbatim>\<open>TemplatedPlatform\<close>, which is not among the sources. By the spec every entry point
  first validates that the serialization level and the attribute set are supported for the
  flavor and fails with a configuration error naming the flavor otherwise: \<open>check_feature\<close>
  raises when the level is not among the valid ones, or when attributes are given and not
  valid.
\<close>

definition check_feature ::
  "string \<Rightarrow> pin \<Rightarrow> (string \<times> string) list \<Rightarrow> nat list \<Rightarrow> bool \<Rightarrow> error + unit" where
  "check_feature feature pin attrs valid_xdrs valid_attrs =
     (if p_xdr pin \<notin> set valid_xdrs then Inl NotImplementedError
      else if \<not> valid_attrs \<and> attrs \<noteq> [] then Inl NotImplementedError
      else Inr ())"

text \<open>
  Modelled from the spec: \<^verbatim>\<open>_invert_if\<close> is a method of the base class as well, the
  inversion the base platform's own output buffer applies to the value it drives onto the
  port: \<^verbatim>\<open>~value\<close> when the flag is set, the value itself otherwise.
\<close>

definition invert_if :: "bool \<Rightarrow> val \<Rightarrow> val" where
  "invert_if invert v = (if invert then Invert v else v)"

subsection \<open>The platform object and its toolchain profile\<close>

text \<open>
  The platform keeps the toolchain name it was constructed with; everything else it holds
  belongs to its base classes (the resource manager with its clock-constraint registry), which
  are not among the sources: \<open>base\<close> is their state, of any type.
\<close>

record 'b platform =
  toolchain :: string
  base :: 'b

text \<open>
  \<^verbatim>\<open>__init__(self, *, toolchain="Vivado")\<close>: the base constructor runs first (\<open>super_init\<close> is
  what it returns: the base state, or the exception it raised), then the assertion on the
  name.
\<close>

definition init :: "error + 'b \<Rightarrow> string \<Rightarrow> error + 'b platform" where
  "init super_init tc =
     seq super_init (\<lambda>b.
       if tc \<in> set [''Vivado'', ''Symbiflow'']
       then Inr \<lparr>toolchain = tc, base = b\<rparr>
       else Inl AssertionError)"

definition vivado_required_tools :: "string list" where
  "vivado_required_tools = [''vivado'']"

definition symbiflow_required_tools :: "string list" where
  "symbiflow_required_tools =
     [''synth'', ''pack'', ''place'', ''route'', ''write_fasm'', ''write_bitstream'']"

text \<open>
  A file template table is a dictionary from artifact name to template body, in insertion
  order. The bodies are Jinja texts; each body of the source has a constructor here, and
  the part of the bodies that the clock constraints go through is given a meaning further
  down. \<open>Inherited\<close> is a body that comes from
  \<^verbatim>\<open>TemplatedPlatform.build_script_templates\<close>, a table of the base class that is not among
  the sources and is a parameter of the two tables. \<^verbatim>\<open>{**base, k: v, ...}\<close> inserts the
  entries of the base table, then each own entry: an own entry replaces an inherited one
  of the same name in place.
\<close>

datatype 'x template =
    Inherited 'x
  | Vivado_build_sh
  | Emit_verilog
  | Emit_debug_verilog
  | Vivado_tcl
  | Vivado_xdc
  | Symbiflow_pcf
  | Symbiflow_xdc
  | Symbiflow_sdc

definition dict_extend :: "(string \<times> 'v) list \<Rightarrow> (string \<times> 'v) list \<Rightarrow> (string \<times> 'v) list" where
  "dict_extend d entries = fold (\<lambda>(k, v). AList.update k v) entries d"

definition vivado_file_templates :: "(string \<times> 'x) list \<Rightarrow> (string \<times> 'x template) list" where
  "vivado_file_templates build_script_templates =
     dict_extend (map (\<lambda>(k, v). (k, Inherited v)) build_script_templates)
       [(''build_{{name}}.sh'', Vivado_build_sh),
        (''{{name}}.v'', Emit_verilog),
        (''{{name}}.debug.v'', Emit_debug_verilog),
        (''{{name}}.tcl'', Vivado_tcl),
        (''{{name}}.xdc'', Vivado_xdc)]"

definition symbiflow_file_templates :: "(string \<times> 'x) list \<Rightarrow> (string \<times> 'x template) list" where
  "symbiflow_file_templates build_script_templates =
     dict_extend (map (\<lambda>(k, v). (k, Inherited v)) build_script_templates)
       [(''{{name}}.v'', Emit_verilog),
        (''{{name}}.debug.v'', Emit_debug_verilog),
        (''{{name}}.pcf'', Symbiflow_pcf),
        (''{{name}}.xdc'', Symbiflow_xdc),
        (''{{name}}.sdc'', Symbiflow_sdc)]"

text \<open>
  A command template: the tool of its \<^verbatim>\<open>{{invoke_tool("...")}}\<close> line, and its other lines.
\<close>

datatype command_template = Invoke_tool string "string list"

definition vivado_command_templates :: "command_template list" where
  \<open>vivado_command_templates =
     [Invoke_tool ''vivado''
        [''{{verbose("-verbose")}}'',
         ''{{get_override("vivado_opts")|options}}'',
         ''-mode batch'',
         ''-log {{name}}.log'',
         ''-source {{name}}.tcl'']]\<close>

definition symbiflow_command_templates :: "command_template list" where
  \<open>symbiflow_command_templates =
     [Invoke_tool ''synth''
        [''-t {{name}}'',
         ''-v {% for file in platform.iter_extra_files(".v", ".sv", ".vhd", ".vhdl") -%} {{file}} {% endfor %} {{name}}.v'',
         ''-p {{platform._symbiflow_part_map.get(platform._part, platform._part)}}'',
         ''-x {{name}}.xdc''],
      Invoke_tool ''pack''
        [''-e {{name}}.eblif'',
         ''-P {{platform._symbiflow_part_map.get(platform._part, platform._part)}}'',
         ''-s {{name}}.sdc''],
      Invoke_tool ''place''
        [''-e {{name}}.eblif'',
         ''-p {{name}}.pcf'',
         ''-n {{name}}.net'',
         ''-P {{platform._symbiflow_part_map.get(platform._part, platform._part)}}'',
         ''-s {{name}}.sdc''],
      Invoke_tool ''route''
        [''-e {{name}}.eblif'',
         ''-P {{platform._symbiflow_part_map.get(platform._part, platform._part)}}'',
         ''-s {{name}}.sdc''],
      Invoke_tool ''write_fasm''
        [''-e {{name}}.eblif'',
         ''-P {{platform._symbiflow_part_map.get(platform._part, platform._part)}}''],
      Invoke_tool ''write_bitstream''
        [''-f {{name}}.fasm'',
         ''-p {{platform._symbiflow_part_map.get(platform._part, platform._part)}}'',
         ''-b {{name}}.bit'']]\<close>

text \<open>Each ends in \<^verbatim>\<open>assert False\<close> for a toolchain name that is neither.\<close>

definition required_tools :: "'b platform \<Rightarrow> error + string list" where
  "required_tools p =
     (if toolchain p = ''Vivado'' then Inr vivado_required_tools
      else if toolchain p = ''Symbiflow'' then Inr symbiflow_required_tools
      else Inl AssertionError)"

definition file_templates ::
  "(string \<times> 'x) list \<Rightarrow> 'b platform \<Rightarrow> error + (string \<times> 'x template) list" where
  "file_templates build_script_templates p =
     (if toolchain p = ''Vivado'' then Inr (vivado_file_templates build_script_templates)
      else if toolchain p = ''Symbiflow'' then Inr (symbiflow_file_templates build_script_templates)
      else Inl AssertionError)"

definition command_templates :: "'b platform \<Rightarrow> error + command_template list" where
  "command_templates p =
     (if toolchain p = ''Vivado'' then Inr vivado_command_templates
      else if toolchain p = ''Symbiflow'' then Inr symbiflow_command_templates
      else Inl AssertionError)"

subsection \<open>add\_clock\_constraint\<close>

text \<open>
  The method changes a signal that the caller and the rest of the design share, so signals
  are objects in a store here: \<open>signals w a\<close> is the signal at address \<open>a\<close>, and the clock
  is passed by address. \<^verbatim>\<open>super().add_clock_constraint(clock, frequency)\<close> belongs to the
  base class: \<open>super\<close> is a parameter, from the base state, the clock and the frequency
  to the new base state or the exception raised. When it raises, the attribute is not set.
\<close>

record 'b world =
  plat :: "'b platform"
  signals :: "nat \<Rightarrow> signal"

definition add_clock_constraint ::
  "('b \<Rightarrow> nat \<Rightarrow> real \<Rightarrow> error + 'b) \<Rightarrow> 'b world \<Rightarrow> nat \<Rightarrow> real \<Rightarrow> error + 'b world" where
  "add_clock_constraint super w clock frequency =
     seq (super (base (plat w)) clock frequency) (\<lambda>b.
       Inr (w\<lparr>plat := (plat w)\<lparr>base := b\<rparr>,
              signals := (signals w)(clock := set_attr (signals w clock) ''keep'' (Str ''TRUE''))\<rparr>))"

subsection \<open>Clock constraints in the rendered artifacts\<close>

text \<open>
  The templates loop over \<^verbatim>\<open>platform.iter_clock_constraints()\<close>, a method of the base class
  that yields triples (net signal, port signal or \<^verbatim>\<open>None\<close>, frequency): the list of these
  facts is the input here. The frequency is a floating-point number; it is a real here, and
  \<^verbatim>\<open>1000000000/frequency\<close> is the real quotient (rounding is not modelled), raising
  ZeroDivisionError at 0. The fields are the loop variables of the templates
  (\<open>cf_frequency\<close> is \<^verbatim>\<open>frequency\<close>).
\<close>

record clock_fact =
  net_signal :: signal
  port_signal :: "signal option"
  cf_frequency :: real

text \<open>
  A rendered \<^verbatim>\<open>create_clock\<close> line: the \<^verbatim>\<open>-name\<close> it has (the SDC line has none), the
  \<^verbatim>\<open>-period\<close>, and the object it names: \<^verbatim>\<open>[get_ports name]\<close>, \<^verbatim>\<open>[get_nets path]\<close> of a
  signal, or a bare net name. The escaping filters and the hierarchy path are the rendering
  engine's and are not modelled.
\<close>

datatype clock_target = Get_ports string | Get_nets signal | Net_name string

record create_clock =
  cc_name :: "string option"
  cc_period :: real
  cc_target :: clock_target

definition py_div :: "real \<Rightarrow> real \<Rightarrow> error + real" where
  "py_div a b = (if b = 0 then Inl ZeroDivisionError else Inr (a / b))"

text \<open>The clock loop of the Vivado \<^verbatim>\<open>{{name}}.xdc\<close> (source lines 159 to 165).\<close>

fun vivado_xdc_clocks :: "clock_fact list \<Rightarrow> error + create_clock list" where
  "vivado_xdc_clocks [] = Inr []"
| "vivado_xdc_clocks (c # cs) =
     seq (py_div 1000000000 (cf_frequency c)) (\<lambda>period.
     seq (vivado_xdc_clocks cs) (\<lambda>lines.
       Inr ((case port_signal c of
               Some port \<Rightarrow> \<lparr>cc_name = Some (sig_name port), cc_period = period,
                              cc_target = Get_ports (sig_name port)\<rparr>
             | None \<Rightarrow> \<lparr>cc_name = Some (sig_name (net_signal c)), cc_period = period,
                         cc_target = Get_nets (net_signal c)\<rparr>) # lines)))"

text \<open>
  The clock loop of the Symbiflow \<^verbatim>\<open>{{name}}.sdc\<close> (source lines 221 to 225): the line, and
  the division in it, stand under \<^verbatim>\<open>{% if port_signal is none %}\<close>, with no other branch.
\<close>

fun symbiflow_sdc_clocks :: "clock_fact list \<Rightarrow> error + create_clock list" where
  "symbiflow_sdc_clocks [] = Inr []"
| "symbiflow_sdc_clocks (c # cs) =
     (if port_signal c = None then
        seq (py_div 1000000000 (cf_frequency c)) (\<lambda>period.
        seq (symbiflow_sdc_clocks cs) (\<lambda>lines.
          Inr (\<lparr>cc_name = None, cc_period = period,
                cc_target = Net_name (sig_name (net_signal c))\<rparr> # lines)))
      else symbiflow_sdc_clocks cs)"

text \<open>
  The \<^verbatim>\<open>create_clock\<close> lines of a template body. Only the two bodies above have a clock
  loop; the inherited build scripts are taken to have none.
\<close>

fun render_clocks :: "'x template \<Rightarrow> clock_fact list \<Rightarrow> error + create_clock list" where
  "render_clocks Vivado_xdc facts = vivado_xdc_clocks facts"
| "render_clocks Symbiflow_sdc facts = symbiflow_sdc_clocks facts"
| "render_clocks t facts = Inr []"

text \<open>
  The \<^verbatim>\<open>create_clock\<close> lines of one artifact of the active profile (none when the profile has
  no artifact of that name).
\<close>

definition clock_lines ::
  "(string \<times> 'x) list \<Rightarrow> 'b platform \<Rightarrow> string \<Rightarrow> clock_fact list \<Rightarrow> error + create_clock list" where
  "clock_lines build_script_templates p artifact facts =
     seq (file_templates build_script_templates p) (\<lambda>templates.
       case map_of templates artifact of
         None \<Rightarrow> Inr []
       | Some t \<Rightarrow> render_clocks t facts)"

subsection \<open>The register primitives of \_get\_xdr\_buffer\<close>

definition FDCE :: "val \<Rightarrow> val \<Rightarrow> val \<Rightarrow> inst" where
  "FDCE clk d_bit q_bit =
     \<lparr>inst_type = ''FDCE'',
      inst_params = [],
      inst_attrs = [(''IOB'', ''TRUE'')],
      inst_inputs = [(''C'', clk), (''CE'', Const 1), (''CLR'', Const 0), (''D'', d_bit)],
      inst_outputs = [(''Q'', q_bit)]\<rparr>"

definition IDDR :: "val \<Rightarrow> val \<Rightarrow> val \<Rightarrow> val \<Rightarrow> inst" where
  "IDDR clk d_bit q1_bit q2_bit =
     \<lparr>inst_type = ''IDDR'',
      inst_params = [(''DDR_CLK_EDGE'', PStr ''SAME_EDGE_PIPELINED''),
                     (''SRTYPE'', PStr ''ASYNC''),
                     (''INIT_Q1'', PInt 0), (''INIT_Q2'', PInt 0)],
      inst_attrs = [],
      inst_inputs = [(''C'', clk), (''CE'', Const 1), (''S'', Const 0), (''R'', Const 0),
                     (''D'', d_bit)],
      inst_outputs = [(''Q1'', q1_bit), (''Q2'', q2_bit)]\<rparr>"

definition ODDR :: "val \<Rightarrow> val \<Rightarrow> val \<Rightarrow> val \<Rightarrow> inst" where
  "ODDR clk d1_bit d2_bit q_bit =
     \<lparr>inst_type = ''ODDR'',
      inst_params = [(''DDR_CLK_EDGE'', PStr ''SAME_EDGE''),
                     (''SRTYPE'', PStr ''ASYNC''),
                     (''INIT'', PInt 0)],
      inst_attrs = [],
      inst_inputs = [(''C'', clk), (''CE'', Const 1), (''S'', Const 0), (''R'', Const 0),
                     (''D1'', d1_bit), (''D2'', d2_bit)],
      inst_outputs = [(''Q'', q_bit)]\<rparr>"

text \<open>
  The three local functions loop \<^verbatim>\<open>for bit in range(len(q))\<close> (for \<^verbatim>\<open>get_iddr\<close>,
  \<^verbatim>\<open>range(len(q1))\<close>); each round indexes its operands, which may raise, and adds one
  anonymous instance. The \<open>_bits\<close> functions are the loops over the remaining bits.
\<close>

fun get_dff_bits :: "val \<Rightarrow> val \<Rightarrow> val \<Rightarrow> nat list \<Rightarrow> module \<Rightarrow> error + module" where
  "get_dff_bits clk d q [] m = Inr m"
| "get_dff_bits clk d q (b # bits) m =
     seq (index d b) (\<lambda>d_bit.
     seq (index q b) (\<lambda>q_bit.
     get_dff_bits clk d q bits (add_submodule m None (FDCE clk d_bit q_bit))))"

definition get_dff :: "module \<Rightarrow> val \<Rightarrow> val \<Rightarrow> val \<Rightarrow> error + module" where
  "get_dff m clk d q = get_dff_bits clk d q [0..<len q] m"

fun get_iddr_bits :: "val \<Rightarrow> val \<Rightarrow> val \<Rightarrow> val \<Rightarrow> nat list \<Rightarrow> module \<Rightarrow> error + module" where
  "get_iddr_bits clk d q1 q2 [] m = Inr m"
| "get_iddr_bits clk d q1 q2 (b # bits) m =
     seq (index d b) (\<lambda>d_bit.
     seq (index q1 b) (\<lambda>q1_bit.
     seq (index q2 b) (\<lambda>q2_bit.
     get_iddr_bits clk d q1 q2 bits (add_submodule m None (IDDR clk d_bit q1_bit q2_bit)))))"

definition get_iddr :: "module \<Rightarrow> val \<Rightarrow> val \<Rightarrow> val \<Rightarrow> val \<Rightarrow> error + module" where
  "get_iddr m clk d q1 q2 = get_iddr_bits clk d q1 q2 [0..<len q1] m"

fun get_oddr_bits :: "val \<Rightarrow> val \<Rightarrow> val \<Rightarrow> val \<Rightarrow> nat list \<Rightarrow> module \<Rightarrow> error + module" where
  "get_oddr_bits clk d1 d2 q [] m = Inr m"
| "get_oddr_bits clk d1 d2 q (b # bits) m =
     seq (index d1 b) (\<lambda>d1_bit.
     seq (index d2 b) (\<lambda>d2_bit.
     seq (index q b) (\<lambda>q_bit.
     get_oddr_bits clk d1 d2 q bits (add_submodule m None (ODDR clk d1_bit d2_bit q_bit)))))"

definition get_oddr :: "module \<Rightarrow> val \<Rightarrow> val \<Rightarrow> val \<Rightarrow> val \<Rightarrow> error + module" where
  "get_oddr m clk d1 d2 q = get_oddr_bits clk d1 d2 q [0..<len q] m"

subsection \<open>\_get\_xdr\_buffer\<close>

text \<open>
  The body of \<^verbatim>\<open>_get_xdr_buffer\<close> in the order of the source. \<open>invert_inputs\<close> is the
  block under the first \<^verbatim>\<open>if "i" in pin.dir\<close> (source lines 385 to 391): it binds the
  locals \<^verbatim>\<open>pin_i\<close>, or \<^verbatim>\<open>pin_i0\<close> and \<^verbatim>\<open>pin_i1\<close>, and leaves the others unbound
  (\<open>None\<close>). \<open>invert_outputs\<close> is the block under \<^verbatim>\<open>if "o" in pin.dir\<close> (lines 392 to
  398). \<^verbatim>\<open>"i" in pin.dir\<close> is a substring test for a one-character string, that is
  membership of the character.
\<close>

definition invert_inputs ::
  "module \<Rightarrow> pin \<Rightarrow> bool option \<Rightarrow>
     error + (module \<times> signal option \<times> signal option \<times> signal option)" where
  "invert_inputs m pin i_invert =
     (if CHR ''i'' \<in> set (p_dir pin) then
        (case i_invert of
           None \<Rightarrow> Inl AssertionError
         | Some invert \<Rightarrow>
             if p_xdr pin < 2 then
               (let (m1, pin_i) = get_ineg m (p_i pin) invert
                in Inr (m1, Some pin_i, None, None))
             else if p_xdr pin = 2 then
               (let (m1, pin_i0) = get_ineg m (p_i0 pin) invert;
                    (m2, pin_i1) = get_ineg m1 (p_i1 pin) invert
                in Inr (m2, None, Some pin_i0, Some pin_i1))
             else Inr (m, None, None, None))
      else Inr (m, None, None, None))"

definition invert_outputs ::
  "module \<Rightarrow> pin \<Rightarrow> bool option \<Rightarrow>
     error + (module \<times> signal option \<times> signal option \<times> signal option)" where
  "invert_outputs m pin o_invert =
     (if CHR ''o'' \<in> set (p_dir pin) then
        (case o_invert of
           None \<Rightarrow> Inl AssertionError
         | Some invert \<Rightarrow>
             if p_xdr pin < 2 then
               (let (m1, pin_o) = get_oneg m (p_o pin) invert
                in Inr (m1, Some pin_o, None, None))
             else if p_xdr pin = 2 then
               (let (m1, pin_o0) = get_oneg m (p_o0 pin) invert;
                    (m2, pin_o1) = get_oneg m1 (p_o1 pin) invert
                in Inr (m2, None, Some pin_o0, Some pin_o1))
             else Inr (m, None, None, None))
      else Inr (m, None, None, None))"

text \<open>
  The signals \<^verbatim>\<open>i\<close>, \<^verbatim>\<open>o\<close>, \<^verbatim>\<open>t\<close> (lines 400 to 406); \<^verbatim>\<open>t\<close> is one bit wide
  whatever the width of the pin.
\<close>

definition xdr_i :: "pin \<Rightarrow> val option" where
  "xdr_i pin = (if CHR ''i'' \<in> set (p_dir pin)
                then Some (Sig (Signal (p_width pin) (p_name pin @ ''_xdr_i''))) else None)"

definition xdr_o :: "pin \<Rightarrow> val option" where
  "xdr_o pin = (if CHR ''o'' \<in> set (p_dir pin)
                then Some (Sig (Signal (p_width pin) (p_name pin @ ''_xdr_o''))) else None)"

definition xdr_t :: "pin \<Rightarrow> val option" where
  "xdr_t pin = (if p_dir pin \<in> set [''oe'', ''io'']
                then Some (Sig (Signal 1 (p_name pin @ ''_xdr_t''))) else None)"

text \<open>
  The whole function. The result is the module after the additions and the triple
  \<^verbatim>\<open>(i, o, t)\<close>; the variables \<open>iv\<close>, \<open>ov\<close>, \<open>tv\<close> are the source's \<^verbatim>\<open>i\<close>, \<^verbatim>\<open>o\<close>,
  \<^verbatim>\<open>t\<close>. The last branch is \<^verbatim>\<open>assert False\<close>.
\<close>

definition get_xdr_buffer ::
  "module \<Rightarrow> pin \<Rightarrow> bool option \<Rightarrow> bool option \<Rightarrow>
     error + (module \<times> val option \<times> val option \<times> val option)" where
  "get_xdr_buffer m pin i_invert o_invert =
     seq (invert_inputs m pin i_invert) (\<lambda>(m, pin_i, pin_i0, pin_i1).
     seq (invert_outputs m pin o_invert) (\<lambda>(m, pin_o, pin_o0, pin_o1).
     let iv = xdr_i pin; ov = xdr_o pin; tv = xdr_t pin;
         has_i = (CHR ''i'' \<in> set (p_dir pin));
         has_o = (CHR ''o'' \<in> set (p_dir pin));
         has_t = (p_dir pin \<in> set [''oe'', ''io''])
     in
     if p_xdr pin = 0 then
       seq (if has_i then seq (local_var pin_i) (\<lambda>x. Inr (Some (Sig x))) else Inr iv) (\<lambda>iv.
       seq (if has_o then seq (local_var pin_o) (\<lambda>x. Inr (Some (Sig x))) else Inr ov) (\<lambda>ov.
       Inr (m, iv, ov, if has_t then Some (Invert (Sig (p_oe pin))) else tv)))
     else if p_xdr pin = 1 then
       seq (if has_i then
              seq (not_none iv) (\<lambda>d. seq (local_var pin_i) (\<lambda>q.
                get_dff m (Sig (p_i_clk pin)) d (Sig q)))
            else Inr m) (\<lambda>m.
       seq (if has_o then
              seq (local_var pin_o) (\<lambda>d. seq (not_none ov) (\<lambda>q.
                get_dff m (Sig (p_o_clk pin)) (Sig d) q))
            else Inr m) (\<lambda>m.
       seq (if has_t then
              seq (not_none tv) (\<lambda>q.
                get_dff m (Sig (p_o_clk pin)) (Invert (Sig (p_oe pin))) q)
            else Inr m) (\<lambda>m.
       Inr (m, iv, ov, tv))))
     else if p_xdr pin = 2 then
       seq (if has_i then
              seq (not_none iv) (\<lambda>d. seq (local_var pin_i0) (\<lambda>q1. seq (local_var pin_i1) (\<lambda>q2.
                get_iddr m (Sig (p_i_clk pin)) d (Sig q1) (Sig q2))))
            else Inr m) (\<lambda>m.
       seq (if has_o then
              seq (local_var pin_o0) (\<lambda>d1. seq (local_var pin_o1) (\<lambda>d2. seq (not_none ov) (\<lambda>q.
                get_oddr m (Sig (p_o_clk pin)) (Sig d1) (Sig d2) q)))
            else Inr m) (\<lambda>m.
       seq (if has_t then
              seq (not_none tv) (\<lambda>q.
                get_dff m (Sig (p_o_clk pin)) (Invert (Sig (p_oe pin))) q)
            else Inr m) (\<lambda>m.
       Inr (m, iv, ov, tv))))
     else Inl AssertionError))"

subsection \<open>get\_output\<close>

definition OBUF :: "val \<Rightarrow> val \<Rightarrow> inst" where
  "OBUF o_bit port_bit =
     \<lparr>inst_type = ''OBUF'', inst_params = [], inst_attrs = [],
      inst_inputs = [(''I'', o_bit)], inst_outputs = [(''O'', port_bit)]\<rparr>"

text \<open>
  The Vivado loop \<^verbatim>\<open>for bit in range(pin.width)\<close>: one OBUF per bit, named
  \<^verbatim>\<open>"{}_{}".format(pin.name, bit)\<close>. \<^verbatim>\<open>o[bit]\<close> raises TypeError when \<^verbatim>\<open>o\<close> is \<^verbatim>\<open>None\<close>.
\<close>

fun obuf_bits :: "pin \<Rightarrow> port \<Rightarrow> val option \<Rightarrow> nat list \<Rightarrow> module \<Rightarrow> error + module" where
  "obuf_bits pin port ov [] m = Inr m"
| "obuf_bits pin port ov (b # bits) m =
     seq (not_none ov) (\<lambda>v.
     seq (index v b) (\<lambda>o_bit.
     seq (index (Sig (port_io port)) b) (\<lambda>port_bit.
     obuf_bits pin port ov bits
       (add_submodule m (Some (p_name pin @ ''_'' @ str_nat b)) (OBUF o_bit port_bit)))))"

text \<open>
  \<^verbatim>\<open>get_output(self, pin, port, attrs, invert)\<close>. Under Symbiflow the port is assigned as a
  whole, \<^verbatim>\<open>port.eq(...)\<close>; a single-ended port has the one field \<^verbatim>\<open>io\<close>, so the target is
  that signal.
\<close>

definition get_output ::
  "'b platform \<Rightarrow> pin \<Rightarrow> port \<Rightarrow> (string \<times> string) list \<Rightarrow> bool \<Rightarrow> error + module" where
  "get_output p pin port attrs invert =
     seq (check_feature ''single-ended output'' pin attrs [0, 1, 2] True) (\<lambda>_.
     seq (get_xdr_buffer Module pin None (Some invert)) (\<lambda>(m, iv, ov, tv).
       if toolchain p = ''Vivado'' then
         obuf_bits pin port ov [0..<p_width pin] m
       else if toolchain p = ''Symbiflow'' then
         seq (not_none ov) (\<lambda>v.
           Inr (add_stmt m ''comb'' (Assign (Sig (port_io port)) (invert_if invert v))))
       else Inl AssertionError))"

subsection \<open>get\_ff\_sync and get\_async\_ff\_sync\<close>

text \<open>
  The fields of an \<^verbatim>\<open>FFSynchronizer\<close> and of an \<^verbatim>\<open>AsyncFFSynchronizer\<close> that the platform
  reads. The maximum input delay is in seconds; \<open>None\<close> is Python's \<^verbatim>\<open>None\<close>.
\<close>

record ff_sync =
  ff_i :: val
  ff_o :: signal
  ff_reset :: int
  ff_reset_less :: bool
  ff_stages :: nat
  ff_o_domain :: string
  ff_max_input_delay :: "real option"

record async_ff_sync =
  aff_i :: val
  aff_o :: signal
  aff_stages :: nat
  aff_edge :: string
  aff_o_domain :: string
  aff_max_input_delay :: "real option"

text \<open>
  The four lines both generators share: \<^verbatim>\<open>flops[0].attrs[...] = ...\<close>. \<^verbatim>\<open>flops[0]\<close> raises
  IndexError on an empty list. Each stage signal has an attribute dictionary of its own
  (the constructor copies the literal), so only the first is changed.
\<close>

definition mark_first :: "signal list \<Rightarrow> real option \<Rightarrow> error + signal list" where
  "mark_first flops max_input_delay =
     (case flops of
        [] \<Rightarrow> Inl IndexError
      | f # fs \<Rightarrow>
          (case max_input_delay of
             None \<Rightarrow> Inr (set_attr f ''nmigen.vivado.false_path'' (Str ''TRUE'') # fs)
           | Some d \<Rightarrow>
               Inr (set_attr f ''nmigen.vivado.max_delay'' (Str_of_float (d * 1000000000)) # fs)))"

text \<open>
  \<^verbatim>\<open>for i, o in zip((first, *flops), flops): m.d[domain] += o.eq(i)\<close>.
\<close>

definition chain :: "module \<Rightarrow> string \<Rightarrow> val \<Rightarrow> signal list \<Rightarrow> module" where
  "chain m d first flops =
     fold (\<lambda>(i, ov) m. add_stmt m d (Assign (Sig ov) i)) (zip (first # map Sig flops) flops) m"

definition ff_sync_flops :: "ff_sync \<Rightarrow> error + signal list" where
  "ff_sync_flops s =
     mark_first
       (map (\<lambda>index. \<lparr>sig_name = ''stage'' @ str_nat index,
                       sig_width = fst (shape (ff_i s)), sig_signed = snd (shape (ff_i s)),
                       sig_reset = ff_reset s, sig_reset_less = ff_reset_less s,
                       sig_attrs = [(''ASYNC_REG'', Str ''TRUE'')]\<rparr>) [0..<ff_stages s])
       (ff_max_input_delay s)"

definition get_ff_sync :: "ff_sync \<Rightarrow> error + module" where
  "get_ff_sync s =
     seq (ff_sync_flops s) (\<lambda>flops.
       let m = chain Module (ff_o_domain s) (ff_i s) flops
       in Inr (add_stmt m ''comb'' (Assign (Sig (ff_o s)) (Sig (last flops)))))"

definition async_ff_sync_flops :: "async_ff_sync \<Rightarrow> error + signal list" where
  "async_ff_sync_flops s =
     mark_first
       (map (\<lambda>index. \<lparr>sig_name = ''stage'' @ str_nat index,
                       sig_width = 1, sig_signed = False,
                       sig_reset = 1, sig_reset_less = False,
                       sig_attrs = [(''ASYNC_REG'', Str ''TRUE'')]\<rparr>) [0..<aff_stages s])
       (aff_max_input_delay s)"

definition get_async_ff_sync :: "async_ff_sync \<Rightarrow> error + module" where
  "get_async_ff_sync s =
     (let m = add_domain Module
                \<lparr>cd_name = ''async_ff'', cd_async_reset = True, cd_local = True\<rparr>
      in seq (async_ff_sync_flops s) (\<lambda>flops.
         let m = chain m ''async_ff'' (Const 0) flops;
             m = (if aff_edge s = ''pos''
                  then add_stmt m ''comb'' (Assign (ResetSignal ''async_ff'') (aff_i s))
                  else add_stmt m ''comb'' (Assign (ResetSignal ''async_ff'') (Invert (aff_i s))));
             m = add_stmt m ''comb''
                   (Assign (ClockSignal ''async_ff'') (ClockSignal (aff_o_domain s)));
             m = add_stmt m ''comb'' (Assign (Sig (aff_o s)) (Sig (last flops)))
         in Inr m))"

section \<open>The meaning of the generated netlists\<close>

text \<open>
  Modelled from the spec: the hardware description library (nmigen/hdl) and its simulator
  are not among the sources; the spec treats them as an external collaborator and only
  uses their vocabulary (a flip-flop chain clocked in a domain, a reset value per stage, the
  logical negation of a signal). The meaning given here is the usual one. A valuation
  gives every signal, and the clock and reset of every domain, a bit pattern, read as a
  natural number below 2 to the width. \<^verbatim>\<open>~v\<close> complements every bit of \<open>v\<close>, \<^verbatim>\<open>v[k]\<close> is
  bit \<open>k\<close>. An assignment extends the right-hand side to the width of the target (by its
  sign bit when it is signed, by zeros otherwise) and truncates it: \<open>fit\<close>.
\<close>

type_synonym valuation = "val \<Rightarrow> nat"

fun eval :: "valuation \<Rightarrow> val \<Rightarrow> nat" where
  "eval \<sigma> (Sig s) = \<sigma> (Sig s) mod 2 ^ sig_width s"
| "eval \<sigma> (Const n) = n"
| "eval \<sigma> (Invert v) = 2 ^ len v - 1 - eval \<sigma> v mod 2 ^ len v"
| "eval \<sigma> (Bit v k) = eval \<sigma> v div 2 ^ k mod 2"
| "eval \<sigma> (ClockSignal d) = \<sigma> (ClockSignal d) mod 2"
| "eval \<sigma> (ResetSignal d) = \<sigma> (ResetSignal d) mod 2"

fun signed_val :: "val \<Rightarrow> bool" where
  "signed_val (Sig s) = sig_signed s"
| "signed_val (Invert v) = signed_val v"
| "signed_val v = False"

definition fit :: "val \<Rightarrow> val \<Rightarrow> nat \<Rightarrow> nat" where
  "fit lhs rhs x =
     (if signed_val rhs \<and> 0 < len rhs \<and> len rhs < len lhs \<and> x div 2 ^ (len rhs - 1) mod 2 = 1
      then x + (2 ^ len lhs - 2 ^ len rhs) else x) mod 2 ^ len lhs"

text \<open>
  Modelled from the spec, as above: the statements of one domain as pairs (target, right-hand side), in program order; where
  two statements drive the same target the later one wins.
\<close>

definition drivers :: "module \<Rightarrow> string \<Rightarrow> (val \<times> val) list" where
  "drivers m d =
     map (\<lambda>(d', st). case st of Assign l r \<Rightarrow> (l, r))
       (filter (\<lambda>(d', st). d' = d) (statements m))"

text \<open>
  Modelled from the spec, as above: one active clock edge of the domain \<open>d\<close>, its reset not asserted: every target of the
  domain takes the value its right-hand side had before the edge; all else keeps its value.
\<close>

definition tick :: "module \<Rightarrow> string \<Rightarrow> valuation \<Rightarrow> valuation" where
  "tick m d \<sigma> =
     (\<lambda>x. case map_of (rev (drivers m d)) x of None \<Rightarrow> \<sigma> x | Some r \<Rightarrow> fit x r (eval \<sigma> r))"

text \<open>
  Modelled from the spec, as above: the reset of the domain \<open>d\<close> asserted: every signal driven in the domain holds its reset
  value.
\<close>

definition in_reset :: "module \<Rightarrow> string \<Rightarrow> valuation \<Rightarrow> valuation" where
  "in_reset m d \<sigma> =
     (\<lambda>x. case x of
            Sig s \<Rightarrow> (if map_of (drivers m d) x \<noteq> None
                       then nat (sig_reset s mod 2 ^ sig_width s) else \<sigma> x)
          | _ \<Rightarrow> \<sigma> x)"

text \<open>
  Modelled from the spec, as above: the clock of a domain, and an edge of a clock. The
  clock of the domain \<open>d\<close> is \<^verbatim>\<open>ClockSignal(d)\<close>, unless the module drives that signal
  combinationally from another clock, which then is the clock of the domain (the spec's
  "clock domain whose clock is tied to the target domain's clock"). One active edge of a
  clock is one active edge of every synchronous domain of the module which that clock
  drives, their resets not asserted: the targets of these domains take, together, the
  values their right-hand sides had before the edge.
\<close>

definition clock_of :: "module \<Rightarrow> string \<Rightarrow> val" where
  "clock_of m d =
     (case map_of (drivers m ''comb'') (ClockSignal d) of
        None \<Rightarrow> ClockSignal d
      | Some c \<Rightarrow> c)"

definition clocked :: "module \<Rightarrow> val \<Rightarrow> (val \<times> val) list" where
  "clocked m c =
     map (\<lambda>(d, st). case st of Assign l r \<Rightarrow> (l, r))
       (filter (\<lambda>(d, st). d \<noteq> ''comb'' \<and> clock_of m d = c) (statements m))"

definition clock_edge :: "module \<Rightarrow> val \<Rightarrow> valuation \<Rightarrow> valuation" where
  "clock_edge m c \<sigma> =
     (\<lambda>x. case map_of (rev (clocked m c)) x of None \<Rightarrow> \<sigma> x | Some r \<Rightarrow> fit x r (eval \<sigma> r))"

text \<open>
  Modelled from the spec, as above: in the combinational domain every target equals its
  right-hand side.
\<close>

definition comb_holds :: "module \<Rightarrow> valuation \<Rightarrow> bool" where
  "comb_holds m \<sigma> = list_all (\<lambda>(l, r). eval \<sigma> l = fit l r (eval \<sigma> r)) (drivers m ''comb'')"

section \<open>Vocabulary of the properties, and example inputs\<close>

text \<open>
  The pin constructor (in the hardware description library) creates every data signal of a
  pin at the pin's width and the output enable one bit wide. \<open>pin_ok\<close> records that, for
  the signals the lowering reads.
\<close>

definition pin_ok :: "pin \<Rightarrow> bool" where
  "pin_ok pin =
     (sig_width (p_i pin) = p_width pin \<and> sig_width (p_i0 pin) = p_width pin \<and>
      sig_width (p_i1 pin) = p_width pin \<and> sig_width (p_o pin) = p_width pin \<and>
      sig_width (p_o0 pin) = p_width pin \<and> sig_width (p_o1 pin) = p_width pin \<and>
      sig_width (p_oe pin) = 1)"

text \<open>
  \<open>ineg x invert\<close> is the signal \<^verbatim>\<open>get_ineg\<close> and \<^verbatim>\<open>get_oneg\<close> return; \<open>dffs\<close>, \<open>iddrs\<close>
  and \<open>oddrs\<close> are the instance lists a complete run of the three loops adds.
\<close>

definition ineg :: "signal \<Rightarrow> bool \<Rightarrow> signal" where
  "ineg x invert = (if invert then Signal_like x ''_n'' else x)"

definition dffs :: "val \<Rightarrow> val \<Rightarrow> val \<Rightarrow> (string option \<times> inst) list" where
  "dffs clk d q = map (\<lambda>b. (None, FDCE clk (Bit d b) (Bit q b))) [0..<len q]"

definition iddrs :: "val \<Rightarrow> val \<Rightarrow> val \<Rightarrow> val \<Rightarrow> (string option \<times> inst) list" where
  "iddrs clk d q1 q2 = map (\<lambda>b. (None, IDDR clk (Bit d b) (Bit q1 b) (Bit q2 b))) [0..<len q1]"

definition oddrs :: "val \<Rightarrow> val \<Rightarrow> val \<Rightarrow> val \<Rightarrow> (string option \<times> inst) list" where
  "oddrs clk d1 d2 q = map (\<lambda>b. (None, ODDR clk (Bit d1 b) (Bit d2 b) (Bit q b))) [0..<len q]"

text \<open>
  \<open>added_by m r\<close> is the list of instances a call that started from the module \<open>m\<close> and
  returned \<open>r\<close> has added (none when it raised); \<open>count_type\<close> counts the instances of one
  primitive; \<open>fed_by v x\<close> holds when an input port of the instance \<open>x\<close> is bound to a bit
  of the expression \<open>v\<close>.
\<close>

definition added_by :: "module \<Rightarrow> error + (module \<times> 'a) \<Rightarrow> (string option \<times> inst) list" where
  "added_by m r =
     (case r of Inl e \<Rightarrow> [] | Inr (m', x) \<Rightarrow> drop (length (submodules m)) (submodules m'))"

definition count_type :: "string \<Rightarrow> (string option \<times> inst) list \<Rightarrow> nat" where
  "count_type ty xs = length (filter (\<lambda>(n, x). inst_type x = ty) xs)"

definition fed_by :: "val \<Rightarrow> inst \<Rightarrow> bool" where
  "fed_by v x = list_ex (\<lambda>(p, e). case e of Bit u k \<Rightarrow> u = v | _ \<Rightarrow> False) (inst_inputs x)"

subsection \<open>Example inputs\<close>

text \<open>An inout pin of width 2 at level 1, as the pin constructor creates it.\<close>

definition pin_io2 :: pin where
  "pin_io2 = \<lparr>p_name = ''d'', p_dir = ''io'', p_width = 2, p_xdr = 1,
     p_i = Signal 2 ''d__i'', p_i0 = Signal 2 ''d__i0'', p_i1 = Signal 2 ''d__i1'',
     p_o = Signal 2 ''d__o'', p_o0 = Signal 2 ''d__o0'', p_o1 = Signal 2 ''d__o1'',
     p_oe = Signal 1 ''d__oe'', p_i_clk = Signal 1 ''d__i_clk'', p_o_clk = Signal 1 ''d__o_clk''\<rparr>"

text \<open>An input pin of width 3 at level 2.\<close>

definition pin_i2 :: pin where
  "pin_i2 = \<lparr>p_name = ''q'', p_dir = ''i'', p_width = 3, p_xdr = 2,
     p_i = Signal 3 ''q__i'', p_i0 = Signal 3 ''q__i0'', p_i1 = Signal 3 ''q__i1'',
     p_o = Signal 3 ''q__o'', p_o0 = Signal 3 ''q__o0'', p_o1 = Signal 3 ''q__o1'',
     p_oe = Signal 1 ''q__oe'', p_i_clk = Signal 1 ''q__i_clk'', p_o_clk = Signal 1 ''q__o_clk''\<rparr>"

text \<open>A tristate pin of width 2 at level 2.\<close>

definition pin_oe2 :: pin where
  "pin_oe2 = \<lparr>p_name = ''t'', p_dir = ''oe'', p_width = 2, p_xdr = 2,
     p_i = Signal 2 ''t__i'', p_i0 = Signal 2 ''t__i0'', p_i1 = Signal 2 ''t__i1'',
     p_o = Signal 2 ''t__o'', p_o0 = Signal 2 ''t__o0'', p_o1 = Signal 2 ''t__o1'',
     p_oe = Signal 1 ''t__oe'', p_i_clk = Signal 1 ''t__i_clk'', p_o_clk = Signal 1 ''t__o_clk''\<rparr>"

text \<open>A one-bit output pin at level 0, and its port.\<close>

definition pin_led :: pin where
  "pin_led = \<lparr>p_name = ''led'', p_dir = ''o'', p_width = 1, p_xdr = 0,
     p_i = Signal 1 ''led__i'', p_i0 = Signal 1 ''led__i0'', p_i1 = Signal 1 ''led__i1'',
     p_o = Signal 1 ''led__o'', p_o0 = Signal 1 ''led__o0'', p_o1 = Signal 1 ''led__o1'',
     p_oe = Signal 1 ''led__oe'', p_i_clk = Signal 1 ''led__i_clk'',
     p_o_clk = Signal 1 ''led__o_clk''\<rparr>"

definition port_led :: port where
  "port_led = \<lparr>port_io = Signal 1 ''led__io''\<rparr>"

text \<open>
  A valuation of the signals around \<open>pin_led\<close>: the design drives 1, the signal made by
  \<^verbatim>\<open>get_oneg\<close> is 0, the port is 1.
\<close>

definition led_on :: valuation where
  "led_on = (\<lambda>x. if x = Sig (Signal_like (p_o pin_led) ''_n'') then 0 else 1)"

text \<open>A three-stage synchronizer with a maximum input delay of 3 ns.\<close>

definition sync3 :: ff_sync where
  "sync3 = \<lparr>ff_i = Sig (Signal 4 ''a''), ff_o = Signal 4 ''b'', ff_reset = 0,
     ff_reset_less = True, ff_stages = 3, ff_o_domain = ''sync'',
     ff_max_input_delay = Some (3 / 1000000000)\<rparr>"

text \<open>A two-stage synchronizer of a falling edge, without a delay bound.\<close>

definition async2 :: async_ff_sync where
  "async2 = \<lparr>aff_i = Sig (Signal 1 ''rst''), aff_o = Signal 1 ''rst_sync'', aff_stages = 2,
     aff_edge = ''neg'', aff_o_domain = ''sync'', aff_max_input_delay = None\<rparr>"

text \<open>
  The registry of the base class in the examples: a list of (clock, frequency) that a
  registration extends.
\<close>

definition register_clock :: "(nat \<times> real) list \<Rightarrow> nat \<Rightarrow> real \<Rightarrow> error + (nat \<times> real) list" where
  "register_clock cs clock frequency = Inr (cs @ [(clock, frequency)])"

text \<open>A 100 MHz clock constrained on its net, and one constrained on its port.\<close>

definition clk100_net :: clock_fact where
  "clk100_net = \<lparr>net_signal = Signal 1 ''clk'', port_signal = None, cf_frequency = 100000000\<rparr>"

definition clk100_port :: clock_fact where
  "clk100_port = \<lparr>net_signal = Signal 1 ''clk100__i'', port_signal = Some (Signal 1 ''clk100__io''),
     cf_frequency = 100000000\<rparr>"

section \<open>Properties of the pin buffer\<close>

subsection \<open>What the loops and \_get\_xdr\_buffer compute\<close>

lemma seq_Inr [simp]: "seq (Inr x) f = f x"
  by (simp add: seq_def)

lemma seq_Inl [simp]: "seq (Inl e) f = Inl e"
  by (simp add: seq_def)

lemma get_dff_bits_ok:
  "\<forall>b\<in>set bits. b < len d \<and> b < len q \<Longrightarrow>
   get_dff_bits clk d q bits m =
     Inr (m\<lparr>submodules := submodules m @ map (\<lambda>b. (None, FDCE clk (Bit d b) (Bit q b))) bits\<rparr>)"
  by (induction bits arbitrary: m) (auto simp: index_def add_submodule_def)

lemma get_iddr_bits_ok:
  "\<forall>b\<in>set bits. b < len d \<and> b < len q1 \<and> b < len q2 \<Longrightarrow>
   get_iddr_bits clk d q1 q2 bits m =
     Inr (m\<lparr>submodules := submodules m @
            map (\<lambda>b. (None, IDDR clk (Bit d b) (Bit q1 b) (Bit q2 b))) bits\<rparr>)"
  by (induction bits arbitrary: m) (auto simp: index_def add_submodule_def)

lemma get_oddr_bits_ok:
  "\<forall>b\<in>set bits. b < len d1 \<and> b < len d2 \<and> b < len q \<Longrightarrow>
   get_oddr_bits clk d1 d2 q bits m =
     Inr (m\<lparr>submodules := submodules m @
            map (\<lambda>b. (None, ODDR clk (Bit d1 b) (Bit d2 b) (Bit q b))) bits\<rparr>)"
  by (induction bits arbitrary: m) (auto simp: index_def add_submodule_def)

lemma get_dff_ok:
  "len q \<le> len d \<Longrightarrow>
   get_dff m clk d q = Inr (m\<lparr>submodules := submodules m @ dffs clk d q\<rparr>)"
  unfolding get_dff_def dffs_def by (rule get_dff_bits_ok) auto

lemma get_iddr_ok:
  "len q1 \<le> len d \<Longrightarrow> len q1 \<le> len q2 \<Longrightarrow>
   get_iddr m clk d q1 q2 = Inr (m\<lparr>submodules := submodules m @ iddrs clk d q1 q2\<rparr>)"
  unfolding get_iddr_def iddrs_def by (rule get_iddr_bits_ok) auto

lemma get_oddr_ok:
  "len q \<le> len d1 \<Longrightarrow> len q \<le> len d2 \<Longrightarrow>
   get_oddr m clk d1 d2 q = Inr (m\<lparr>submodules := submodules m @ oddrs clk d1 d2 q\<rparr>)"
  unfolding get_oddr_def oddrs_def by (rule get_oddr_bits_ok) auto

lemma get_ineg_snd [simp]: "snd (get_ineg m x a) = ineg x a"
  by (simp add: get_ineg_def ineg_def Let_def)

lemma get_oneg_snd [simp]: "snd (get_oneg m x a) = ineg x a"
  by (simp add: get_oneg_def ineg_def Let_def)

lemma get_ineg_submodules [simp]: "submodules (fst (get_ineg m x a)) = submodules m"
  by (simp add: get_ineg_def add_stmt_def Let_def)

lemma get_oneg_submodules [simp]: "submodules (fst (get_oneg m x a)) = submodules m"
  by (simp add: get_oneg_def add_stmt_def Let_def)

lemma ineg_width [simp]: "sig_width (ineg x a) = sig_width x"
  by (simp add: ineg_def Signal_like_def)

lemma invert_inputs_None:
  "CHR ''i'' \<in> set (p_dir pin) \<Longrightarrow> invert_inputs m pin None = Inl AssertionError"
  by (simp add: invert_inputs_def)

lemma invert_outputs_None:
  "CHR ''o'' \<in> set (p_dir pin) \<Longrightarrow> invert_outputs m pin None = Inl AssertionError"
  by (simp add: invert_outputs_def)

lemma invert_inputs_submodules:
  "invert_inputs m pin ii = Inr (m1, x, x0, x1) \<Longrightarrow> submodules m1 = submodules m"
  by (auto simp: invert_inputs_def Let_def split: if_splits option.splits prod.splits)
   (metis fst_conv get_ineg_submodules)+

lemma invert_inputs_Some:
  "invert_inputs m pin (Some a) =
     (if CHR ''i'' \<in> set (p_dir pin) then
        if p_xdr pin < 2 then
          Inr (fst (get_ineg m (p_i pin) a), Some (ineg (p_i pin) a), None, None)
        else if p_xdr pin = 2 then
          Inr (fst (get_ineg (fst (get_ineg m (p_i0 pin) a)) (p_i1 pin) a), None,
               Some (ineg (p_i0 pin) a), Some (ineg (p_i1 pin) a))
        else Inr (m, None, None, None)
      else Inr (m, None, None, None))"
  by (simp add: invert_inputs_def Let_def split_def)

lemma invert_outputs_Some:
  "invert_outputs m pin (Some a) =
     (if CHR ''o'' \<in> set (p_dir pin) then
        if p_xdr pin < 2 then
          Inr (fst (get_oneg m (p_o pin) a), Some (ineg (p_o pin) a), None, None)
        else if p_xdr pin = 2 then
          Inr (fst (get_oneg (fst (get_oneg m (p_o0 pin) a)) (p_o1 pin) a), None,
               Some (ineg (p_o0 pin) a), Some (ineg (p_o1 pin) a))
        else Inr (m, None, None, None)
      else Inr (m, None, None, None))"
  by (simp add: invert_outputs_def Let_def split_def)

lemma invert_inputs_absent:
  "CHR ''i'' \<notin> set (p_dir pin) \<Longrightarrow> invert_inputs m pin ii = Inr (m, None, None, None)"
  by (simp add: invert_inputs_def)

lemma invert_outputs_absent:
  "CHR ''o'' \<notin> set (p_dir pin) \<Longrightarrow> invert_outputs m pin oi = Inr (m, None, None, None)"
  by (simp add: invert_outputs_def)

lemma get_xdr_buffer_xdr1:
  assumes ok: "pin_ok pin" and x: "p_xdr pin = 1"
    and ii: "CHR ''i'' \<in> set (p_dir pin) \<Longrightarrow> i_invert = Some a"
    and oi: "CHR ''o'' \<in> set (p_dir pin) \<Longrightarrow> o_invert = Some b"
  shows "\<exists>m'. get_xdr_buffer m pin i_invert o_invert =
            Inr (m', xdr_i pin, xdr_o pin, xdr_t pin) \<and>
          submodules m' = submodules m @
            (if CHR ''i'' \<in> set (p_dir pin)
             then dffs (Sig (p_i_clk pin)) (Sig (Signal (p_width pin) (p_name pin @ ''_xdr_i'')))
                    (Sig (ineg (p_i pin) a)) else []) @
            (if CHR ''o'' \<in> set (p_dir pin)
             then dffs (Sig (p_o_clk pin)) (Sig (ineg (p_o pin) b))
                    (Sig (Signal (p_width pin) (p_name pin @ ''_xdr_o''))) else []) @
            (if p_dir pin \<in> set [''oe'', ''io'']
             then dffs (Sig (p_o_clk pin)) (Invert (Sig (p_oe pin)))
                    (Sig (Signal 1 (p_name pin @ ''_xdr_t''))) else [])"
proof -
  have w: "sig_width (p_i pin) = p_width pin" "sig_width (p_o pin) = p_width pin"
    "sig_width (p_oe pin) = 1"
    using ok by (simp_all add: pin_ok_def)
  have sw: "sig_width (Signal n s) = n" for n s by (simp add: Signal_def)
  show ?thesis
  proof (cases "CHR ''i'' \<in> set (p_dir pin)")
    case True
    note i = True ii [OF True]
    show ?thesis
    proof (cases "CHR ''o'' \<in> set (p_dir pin)")
      case True
      note o = True oi [OF True]
      show ?thesis
        using i o x w
        by (simp add: get_xdr_buffer_def invert_inputs_Some invert_outputs_Some Let_def
            xdr_i_def xdr_o_def xdr_t_def local_var_def not_none_def get_dff_ok sw)
    next
      case False
      then show ?thesis
        using i x w
        by (simp add: get_xdr_buffer_def invert_inputs_Some invert_outputs_absent Let_def
            xdr_i_def xdr_o_def xdr_t_def local_var_def not_none_def get_dff_ok sw)
    qed
  next
    case False
    note i = False
    show ?thesis
    proof (cases "CHR ''o'' \<in> set (p_dir pin)")
      case True
      note o = True oi [OF True]
      show ?thesis
        using i o x w
        by (simp add: get_xdr_buffer_def invert_inputs_absent invert_outputs_Some Let_def
            xdr_i_def xdr_o_def xdr_t_def local_var_def not_none_def get_dff_ok sw)
    next
      case False
      then show ?thesis
        using i x w
        by (simp add: get_xdr_buffer_def invert_inputs_absent invert_outputs_absent Let_def
            xdr_i_def xdr_o_def xdr_t_def local_var_def not_none_def get_dff_ok sw)
    qed
  qed
qed

lemma get_xdr_buffer_xdr2:
  assumes ok: "pin_ok pin" and x: "p_xdr pin = 2"
    and ii: "CHR ''i'' \<in> set (p_dir pin) \<Longrightarrow> i_invert = Some a"
    and oi: "CHR ''o'' \<in> set (p_dir pin) \<Longrightarrow> o_invert = Some b"
  shows "\<exists>m'. get_xdr_buffer m pin i_invert o_invert =
            Inr (m', xdr_i pin, xdr_o pin, xdr_t pin) \<and>
          submodules m' = submodules m @
            (if CHR ''i'' \<in> set (p_dir pin)
             then iddrs (Sig (p_i_clk pin)) (Sig (Signal (p_width pin) (p_name pin @ ''_xdr_i'')))
                    (Sig (ineg (p_i0 pin) a)) (Sig (ineg (p_i1 pin) a)) else []) @
            (if CHR ''o'' \<in> set (p_dir pin)
             then oddrs (Sig (p_o_clk pin)) (Sig (ineg (p_o0 pin) b)) (Sig (ineg (p_o1 pin) b))
                    (Sig (Signal (p_width pin) (p_name pin @ ''_xdr_o''))) else []) @
            (if p_dir pin \<in> set [''oe'', ''io'']
             then dffs (Sig (p_o_clk pin)) (Invert (Sig (p_oe pin)))
                    (Sig (Signal 1 (p_name pin @ ''_xdr_t''))) else [])"
proof -
  have w: "sig_width (p_i0 pin) = p_width pin" "sig_width (p_i1 pin) = p_width pin"
    "sig_width (p_o0 pin) = p_width pin" "sig_width (p_o1 pin) = p_width pin"
    "sig_width (p_oe pin) = 1"
    using ok by (simp_all add: pin_ok_def)
  have sw: "sig_width (Signal n s) = n" for n s by (simp add: Signal_def)
  show ?thesis
  proof (cases "CHR ''i'' \<in> set (p_dir pin)")
    case True
    note i = True ii [OF True]
    show ?thesis
    proof (cases "CHR ''o'' \<in> set (p_dir pin)")
      case True
      note o = True oi [OF True]
      show ?thesis
        using i o x w
        by (simp add: get_xdr_buffer_def invert_inputs_Some invert_outputs_Some Let_def
            xdr_i_def xdr_o_def xdr_t_def local_var_def not_none_def get_dff_ok get_iddr_ok
            get_oddr_ok sw)
    next
      case False
      then show ?thesis
        using i x w
        by (simp add: get_xdr_buffer_def invert_inputs_Some invert_outputs_absent Let_def
            xdr_i_def xdr_o_def xdr_t_def local_var_def not_none_def get_dff_ok get_iddr_ok sw)
    qed
  next
    case False
    note i = False
    show ?thesis
    proof (cases "CHR ''o'' \<in> set (p_dir pin)")
      case True
      note o = True oi [OF True]
      show ?thesis
        using i o x w
        by (simp add: get_xdr_buffer_def invert_inputs_absent invert_outputs_Some Let_def
            xdr_i_def xdr_o_def xdr_t_def local_var_def not_none_def get_dff_ok get_oddr_ok sw)
    next
      case False
      then show ?thesis
        using i x w
        by (simp add: get_xdr_buffer_def invert_inputs_absent invert_outputs_absent Let_def
            xdr_i_def xdr_o_def xdr_t_def local_var_def not_none_def get_dff_ok sw)
    qed
  qed
qed

lemma get_xdr_buffer_xdr0:
  assumes x: "p_xdr pin = 0"
    and ii: "CHR ''i'' \<in> set (p_dir pin) \<Longrightarrow> i_invert = Some a"
    and oi: "CHR ''o'' \<in> set (p_dir pin) \<Longrightarrow> o_invert = Some b"
  shows "\<exists>m'. get_xdr_buffer m pin i_invert o_invert =
            Inr (m',
              if CHR ''i'' \<in> set (p_dir pin) then Some (Sig (ineg (p_i pin) a)) else None,
              if CHR ''o'' \<in> set (p_dir pin) then Some (Sig (ineg (p_o pin) b)) else None,
              if p_dir pin \<in> set [''oe'', ''io''] then Some (Invert (Sig (p_oe pin))) else None) \<and>
          submodules m' = submodules m"
proof (cases "CHR ''i'' \<in> set (p_dir pin)")
  case True
  note i = True ii [OF True]
  show ?thesis
  proof (cases "CHR ''o'' \<in> set (p_dir pin)")
    case True
    note o = True oi [OF True]
    show ?thesis
      using i o x
      by (simp add: get_xdr_buffer_def invert_inputs_Some invert_outputs_Some Let_def
          xdr_i_def xdr_o_def xdr_t_def local_var_def)
  next
    case False
    then show ?thesis
      using i x
      by (simp add: get_xdr_buffer_def invert_inputs_Some invert_outputs_absent Let_def
          xdr_i_def xdr_o_def xdr_t_def local_var_def)
  qed
next
  case False
  note i = False
  show ?thesis
  proof (cases "CHR ''o'' \<in> set (p_dir pin)")
    case True
    note o = True oi [OF True]
    show ?thesis
      using i o x
      by (simp add: get_xdr_buffer_def invert_inputs_absent invert_outputs_Some Let_def
          xdr_i_def xdr_o_def xdr_t_def local_var_def)
  next
    case False
    then show ?thesis
      using i x
      by (simp add: get_xdr_buffer_def invert_inputs_absent invert_outputs_absent Let_def
          xdr_i_def xdr_o_def xdr_t_def local_var_def)
  qed
qed

lemma get_xdr_buffer_no_i_invert:
  "CHR ''i'' \<in> set (p_dir pin) \<Longrightarrow> get_xdr_buffer m pin None oi = Inl AssertionError"
  by (simp add: get_xdr_buffer_def invert_inputs_None)

lemma get_xdr_buffer_no_o_invert:
  assumes "CHR ''o'' \<in> set (p_dir pin)"
  shows "get_xdr_buffer m pin ii None = Inl AssertionError"
proof (cases ii)
  case None
  then show ?thesis
    using assms
    by (cases "CHR ''i'' \<in> set (p_dir pin)")
       (simp_all add: get_xdr_buffer_def invert_inputs_None invert_inputs_absent
          invert_outputs_None)
next
  case (Some a)
  then show ?thesis
    using assms
    by (simp add: get_xdr_buffer_def invert_inputs_Some invert_outputs_None)
qed

lemma added_by_Inr [simp]:
  "submodules m' = submodules m @ xs \<Longrightarrow> added_by m (Inr (m', x)) = xs"
  by (simp add: added_by_def)

lemma count_type_append [simp]:
  "count_type ty (xs @ ys) = count_type ty xs + count_type ty ys"
  by (simp add: count_type_def)

lemma count_type_dffs [simp]:
  "count_type ty (dffs clk d q) = (if ty = ''FDCE'' then len q else 0)"
  by (auto simp: count_type_def dffs_def FDCE_def filter_map comp_def)

lemma count_type_iddrs [simp]:
  "count_type ty (iddrs clk d q1 q2) = (if ty = ''IDDR'' then len q1 else 0)"
  by (auto simp: count_type_def iddrs_def IDDR_def filter_map comp_def)

lemma count_type_oddrs [simp]:
  "count_type ty (oddrs clk d1 d2 q) = (if ty = ''ODDR'' then len q else 0)"
  by (auto simp: count_type_def oddrs_def ODDR_def filter_map comp_def)

lemma sig_width_Signal [simp]: "sig_width (Signal w n) = w"
  by (simp add: Signal_def)

lemma dffs_one:
  "len q = 1 \<Longrightarrow> dffs clk d q = [(None, FDCE clk (Bit d 0) (Bit q 0))]"
  by (simp add: dffs_def)

lemma fed_by_dffs_Sig [simp]:
  "filter (\<lambda>(n, x). fed_by (Invert v) x) (dffs (Sig c) (Sig d) q) = []"
  by (simp add: dffs_def fed_by_def FDCE_def filter_map comp_def)

lemma fed_by_iddrs_Sig [simp]:
  "filter (\<lambda>(n, x). fed_by (Invert v) x) (iddrs (Sig c) (Sig d) q1 q2) = []"
  by (simp add: iddrs_def fed_by_def IDDR_def filter_map comp_def)

lemma fed_by_oddrs_Sig [simp]:
  "filter (\<lambda>(n, x). fed_by (Invert v) x) (oddrs (Sig c) (Sig d1) (Sig d2) q) = []"
  by (simp add: oddrs_def fed_by_def ODDR_def filter_map comp_def)

lemma fed_by_enable [simp]:
  "fed_by v (FDCE clk (Bit v k) q)"
  by (simp add: fed_by_def FDCE_def)

subsection \<open>Level 1, both directions\<close>

text \<open>
  C1 (amended). For every well-formed level-1 pin request of width W and direction
  \<open>''io''\<close> (input and output both present), \<^verbatim>\<open>_get_xdr_buffer\<close> returns and adds exactly
  2 W + 1 instances, all FDCE: W on the input path (D the bit of \<^verbatim>\<open>i\<close>, Q the bit of the
  pin-side input, clocked by \<^verbatim>\<open>i_clk\<close>), then W on the output path (D the bit of the
  pin-side output, Q the bit of \<^verbatim>\<open>o\<close>, clocked by \<^verbatim>\<open>o_clk\<close>), then one enable register
  (not W): the signal \<^verbatim>\<open>t\<close> is one bit wide, and its single FDCE takes bit 0 of the
  negated output enable.
\<close>

theorem xdr1_io_registers:
  assumes "pin_ok pin" and "p_xdr pin = 1" and "p_dir pin = ''io''"
  shows "(\<exists>m'. get_xdr_buffer m pin (Some a) (Some b) =
            Inr (m', Some (Sig (Signal (p_width pin) (p_name pin @ ''_xdr_i''))),
                     Some (Sig (Signal (p_width pin) (p_name pin @ ''_xdr_o''))),
                     Some (Sig (Signal 1 (p_name pin @ ''_xdr_t''))))) \<and>
         added_by m (get_xdr_buffer m pin (Some a) (Some b)) =
           map (\<lambda>k. (None, FDCE (Sig (p_i_clk pin))
                  (Bit (Sig (Signal (p_width pin) (p_name pin @ ''_xdr_i''))) k)
                  (Bit (Sig (ineg (p_i pin) a)) k))) [0..<p_width pin] @
           map (\<lambda>k. (None, FDCE (Sig (p_o_clk pin))
                  (Bit (Sig (ineg (p_o pin) b)) k)
                  (Bit (Sig (Signal (p_width pin) (p_name pin @ ''_xdr_o''))) k))) [0..<p_width pin] @
           [(None, FDCE (Sig (p_o_clk pin)) (Bit (Invert (Sig (p_oe pin))) 0)
                  (Bit (Sig (Signal 1 (p_name pin @ ''_xdr_t''))) 0))] \<and>
         count_type ''FDCE'' (added_by m (get_xdr_buffer m pin (Some a) (Some b))) =
           2 * p_width pin + 1 \<and>
         length (added_by m (get_xdr_buffer m pin (Some a) (Some b))) = 2 * p_width pin + 1 \<and>
         length (filter (\<lambda>(n, x). fed_by (Invert (Sig (p_oe pin))) x)
            (added_by m (get_xdr_buffer m pin (Some a) (Some b)))) = 1"
proof -
  have w: "sig_width (p_i pin) = p_width pin" "sig_width (p_o pin) = p_width pin"
    using assms(1) by (simp_all add: pin_ok_def)
  from get_xdr_buffer_xdr1 [OF assms(1,2), of "Some a" a "Some b" b m]
  obtain m' where r: "get_xdr_buffer m pin (Some a) (Some b) =
        Inr (m', xdr_i pin, xdr_o pin, xdr_t pin)"
    and s: "submodules m' = submodules m @
       dffs (Sig (p_i_clk pin)) (Sig (Signal (p_width pin) (p_name pin @ ''_xdr_i'')))
         (Sig (ineg (p_i pin) a)) @
       dffs (Sig (p_o_clk pin)) (Sig (ineg (p_o pin) b))
         (Sig (Signal (p_width pin) (p_name pin @ ''_xdr_o''))) @
       dffs (Sig (p_o_clk pin)) (Invert (Sig (p_oe pin)))
         (Sig (Signal 1 (p_name pin @ ''_xdr_t'')))"
    using assms(3) by auto
  have a: "added_by m (get_xdr_buffer m pin (Some a) (Some b)) =
       dffs (Sig (p_i_clk pin)) (Sig (Signal (p_width pin) (p_name pin @ ''_xdr_i'')))
         (Sig (ineg (p_i pin) a)) @
       dffs (Sig (p_o_clk pin)) (Sig (ineg (p_o pin) b))
         (Sig (Signal (p_width pin) (p_name pin @ ''_xdr_o''))) @
       dffs (Sig (p_o_clk pin)) (Invert (Sig (p_oe pin)))
         (Sig (Signal 1 (p_name pin @ ''_xdr_t'')))"
    unfolding r using s by (rule added_by_Inr)
  have 1: "\<exists>m'. get_xdr_buffer m pin (Some a) (Some b) =
            Inr (m', Some (Sig (Signal (p_width pin) (p_name pin @ ''_xdr_i''))),
                     Some (Sig (Signal (p_width pin) (p_name pin @ ''_xdr_o''))),
                     Some (Sig (Signal 1 (p_name pin @ ''_xdr_t''))))"
    using r assms(3) by (simp add: xdr_i_def xdr_o_def xdr_t_def)
  have 2: "added_by m (get_xdr_buffer m pin (Some a) (Some b)) =
           map (\<lambda>k. (None, FDCE (Sig (p_i_clk pin))
                  (Bit (Sig (Signal (p_width pin) (p_name pin @ ''_xdr_i''))) k)
                  (Bit (Sig (ineg (p_i pin) a)) k))) [0..<p_width pin] @
           map (\<lambda>k. (None, FDCE (Sig (p_o_clk pin))
                  (Bit (Sig (ineg (p_o pin) b)) k)
                  (Bit (Sig (Signal (p_width pin) (p_name pin @ ''_xdr_o''))) k))) [0..<p_width pin] @
           [(None, FDCE (Sig (p_o_clk pin)) (Bit (Invert (Sig (p_oe pin))) 0)
                  (Bit (Sig (Signal 1 (p_name pin @ ''_xdr_t''))) 0))]"
    unfolding a by (simp add: dffs_def w)
  have 3: "count_type ''FDCE'' (added_by m (get_xdr_buffer m pin (Some a) (Some b))) =
           2 * p_width pin + 1"
    unfolding a by (simp add: w)
  have 4: "length (added_by m (get_xdr_buffer m pin (Some a) (Some b))) = 2 * p_width pin + 1"
    unfolding 2 by simp
  have 5: "length (filter (\<lambda>(n, x). fed_by (Invert (Sig (p_oe pin))) x)
            (added_by m (get_xdr_buffer m pin (Some a) (Some b)))) = 1"
    unfolding a by (simp add: dffs_one)
  from 1 2 3 4 5 show ?thesis by blast
qed

theorem xdr1_io_registers_witness:
  "pin_ok pin_io2 \<and> p_xdr pin_io2 = 1 \<and> p_dir pin_io2 = ''io'' \<and>
   count_type ''FDCE''
     (added_by Module (get_xdr_buffer Module pin_io2 (Some False) (Some False))) = 5 \<and>
   length (added_by Module (get_xdr_buffer Module pin_io2 (Some False) (Some False))) = 5"
proof -
  have h: "pin_ok pin_io2" "p_xdr pin_io2 = 1" "p_dir pin_io2 = ''io''"
    by (simp_all add: pin_io2_def pin_ok_def)
  have w: "2 * p_width pin_io2 + 1 = 5"
    by (simp add: pin_io2_def)
  from xdr1_io_registers [OF h, of Module False False] h show ?thesis
    unfolding w by blast
qed

text \<open>
  C1 as stated asks for W enable registers, 3 W registers in all. At width 2 the call adds
  5 registers, one of them fed by the negated output enable.
\<close>

theorem xdr1_enable_registers_counterexample:
  "pin_ok pin_io2 \<and> p_xdr pin_io2 = 1 \<and> p_dir pin_io2 = ''io'' \<and>
   count_type ''FDCE''
     (added_by Module (get_xdr_buffer Module pin_io2 (Some False) (Some False)))
     \<noteq> 2 * p_width pin_io2 + p_width pin_io2 \<and>
   length (filter (\<lambda>(n, x). fed_by (Invert (Sig (p_oe pin_io2))) x)
     (added_by Module (get_xdr_buffer Module pin_io2 (Some False) (Some False))))
     \<noteq> p_width pin_io2"
proof -
  have h: "pin_ok pin_io2" "p_xdr pin_io2 = 1"
    by (simp_all add: pin_io2_def pin_ok_def)
  have d: "p_dir pin_io2 = ''io''" and w: "p_width pin_io2 = 2"
    by (simp_all add: pin_io2_def)
  from get_xdr_buffer_xdr1 [OF h, of "Some False" False "Some False" False Module]
  obtain m' where r: "get_xdr_buffer Module pin_io2 (Some False) (Some False) =
        Inr (m', xdr_i pin_io2, xdr_o pin_io2, xdr_t pin_io2)"
    and s: "submodules m' = submodules Module @
       dffs (Sig (p_i_clk pin_io2)) (Sig (Signal (p_width pin_io2) (p_name pin_io2 @ ''_xdr_i'')))
         (Sig (ineg (p_i pin_io2) False)) @
       dffs (Sig (p_o_clk pin_io2)) (Sig (ineg (p_o pin_io2) False))
         (Sig (Signal (p_width pin_io2) (p_name pin_io2 @ ''_xdr_o''))) @
       dffs (Sig (p_o_clk pin_io2)) (Invert (Sig (p_oe pin_io2)))
         (Sig (Signal 1 (p_name pin_io2 @ ''_xdr_t'')))"
    using d by auto
  have a: "added_by Module (get_xdr_buffer Module pin_io2 (Some False) (Some False)) =
       dffs (Sig (p_i_clk pin_io2)) (Sig (Signal (p_width pin_io2) (p_name pin_io2 @ ''_xdr_i'')))
         (Sig (ineg (p_i pin_io2) False)) @
       dffs (Sig (p_o_clk pin_io2)) (Sig (ineg (p_o pin_io2) False))
         (Sig (Signal (p_width pin_io2) (p_name pin_io2 @ ''_xdr_o''))) @
       dffs (Sig (p_o_clk pin_io2)) (Invert (Sig (p_oe pin_io2)))
         (Sig (Signal 1 (p_name pin_io2 @ ''_xdr_t'')))"
    unfolding r using s by (rule added_by_Inr)
  have wi: "sig_width (p_i pin_io2) = 2" by (simp add: pin_io2_def)
  have c: "count_type ''FDCE''
     (added_by Module (get_xdr_buffer Module pin_io2 (Some False) (Some False))) = 5"
    unfolding a by (simp add: w wi)
  have e: "length (filter (\<lambda>(n, x). fed_by (Invert (Sig (p_oe pin_io2))) x)
     (added_by Module (get_xdr_buffer Module pin_io2 (Some False) (Some False)))) = 1"
    unfolding a by (simp add: dffs_one)
  show ?thesis using h d c e by (simp add: w)
qed

subsection \<open>Level 2, input\<close>

lemma filter_type_dffs [simp]:
  "ty \<noteq> ''FDCE'' \<Longrightarrow> filter (\<lambda>(n, x). inst_type x = ty) (dffs clk d q) = []"
  by (simp add: dffs_def FDCE_def filter_map comp_def)

lemma filter_type_oddrs [simp]:
  "ty \<noteq> ''ODDR'' \<Longrightarrow> filter (\<lambda>(n, x). inst_type x = ty) (oddrs clk d1 d2 q) = []"
  by (simp add: oddrs_def ODDR_def filter_map comp_def)

lemma filter_type_iddrs [simp]:
  "filter (\<lambda>(n, x). inst_type x = ''IDDR'') (iddrs clk d q1 q2) = iddrs clk d q1 q2"
  by (simp add: iddrs_def IDDR_def filter_map comp_def)

text \<open>
  C7. For every well-formed level-2 pin request of width W whose direction has the input
  (\<open>''i''\<close> or \<open>''io''\<close>), \<^verbatim>\<open>_get_xdr_buffer\<close> returns, and the IDDR instances it adds
  are exactly W, one per bit k in order: each with DDR\_CLK\_EDGE = SAME\_EDGE\_PIPELINED,
  SRTYPE = ASYNC, INIT\_Q1 = 0 and INIT\_Q2 = 0, one clock \<^verbatim>\<open>i_clk\<close> and one data input (bit
  k of \<^verbatim>\<open>i\<close>), and the two outputs Q1 and Q2 (bit k of the pin-side \<^verbatim>\<open>i0\<close> and \<^verbatim>\<open>i1\<close>).
\<close>

theorem xdr2_input_iddr:
  assumes "pin_ok pin" and "p_xdr pin = 2" and "CHR ''i'' \<in> set (p_dir pin)"
    and "CHR ''o'' \<in> set (p_dir pin) \<Longrightarrow> o_invert = Some b"
  shows "(\<exists>m' ov tv. get_xdr_buffer m pin (Some a) o_invert =
            Inr (m', Some (Sig (Signal (p_width pin) (p_name pin @ ''_xdr_i''))), ov, tv)) \<and>
         filter (\<lambda>(n, x). inst_type x = ''IDDR'')
             (added_by m (get_xdr_buffer m pin (Some a) o_invert)) =
           map (\<lambda>k. (None,
                  \<lparr>inst_type = ''IDDR'',
                   inst_params = [(''DDR_CLK_EDGE'', PStr ''SAME_EDGE_PIPELINED''),
                                  (''SRTYPE'', PStr ''ASYNC''),
                                  (''INIT_Q1'', PInt 0), (''INIT_Q2'', PInt 0)],
                   inst_attrs = [],
                   inst_inputs = [(''C'', Sig (p_i_clk pin)), (''CE'', Const 1),
                                  (''S'', Const 0), (''R'', Const 0),
                                  (''D'', Bit (Sig (Signal (p_width pin) (p_name pin @ ''_xdr_i''))) k)],
                   inst_outputs = [(''Q1'', Bit (Sig (ineg (p_i0 pin) a)) k),
                                   (''Q2'', Bit (Sig (ineg (p_i1 pin) a)) k)]\<rparr>))
             [0..<p_width pin] \<and>
         count_type ''IDDR'' (added_by m (get_xdr_buffer m pin (Some a) o_invert)) = p_width pin"
proof -
  have w: "sig_width (p_i0 pin) = p_width pin"
    using assms(1) by (simp add: pin_ok_def)
  let ?I = "Sig (Signal (p_width pin) (p_name pin @ ''_xdr_i''))"
  let ?rest = "(if CHR ''o'' \<in> set (p_dir pin)
             then oddrs (Sig (p_o_clk pin)) (Sig (ineg (p_o0 pin) b)) (Sig (ineg (p_o1 pin) b))
                    (Sig (Signal (p_width pin) (p_name pin @ ''_xdr_o''))) else []) @
            (if p_dir pin \<in> set [''oe'', ''io'']
             then dffs (Sig (p_o_clk pin)) (Invert (Sig (p_oe pin)))
                    (Sig (Signal 1 (p_name pin @ ''_xdr_t''))) else [])"
  from get_xdr_buffer_xdr2 [OF assms(1,2), of "Some a" a o_invert b m] assms(4)
  obtain m' where r: "get_xdr_buffer m pin (Some a) o_invert =
        Inr (m', xdr_i pin, xdr_o pin, xdr_t pin)"
    and s: "submodules m' = submodules m @
       (iddrs (Sig (p_i_clk pin)) ?I (Sig (ineg (p_i0 pin) a)) (Sig (ineg (p_i1 pin) a)) @ ?rest)"
    using assms(3) by auto
  have a: "added_by m (get_xdr_buffer m pin (Some a) o_invert) =
       iddrs (Sig (p_i_clk pin)) ?I (Sig (ineg (p_i0 pin) a)) (Sig (ineg (p_i1 pin) a)) @ ?rest"
    unfolding r using s by (rule added_by_Inr)
  have 1: "\<exists>m' ov tv. get_xdr_buffer m pin (Some a) o_invert = Inr (m', Some ?I, ov, tv)"
    using r assms(3) by (simp add: xdr_i_def)
  have f: "filter (\<lambda>(n, x). inst_type x = ''IDDR'') ?rest = []"
    by simp
  have 2: "filter (\<lambda>(n, x). inst_type x = ''IDDR'')
             (added_by m (get_xdr_buffer m pin (Some a) o_invert)) =
       iddrs (Sig (p_i_clk pin)) ?I (Sig (ineg (p_i0 pin) a)) (Sig (ineg (p_i1 pin) a))"
    unfolding a filter_append f by simp
  have 3: "count_type ''IDDR'' (added_by m (get_xdr_buffer m pin (Some a) o_invert)) = p_width pin"
    unfolding count_type_def 2 by (simp add: iddrs_def w)
  show ?thesis
    using 1 3 unfolding 2 by (simp add: iddrs_def IDDR_def w)
qed

theorem xdr2_input_iddr_witness:
  "pin_ok pin_i2 \<and> p_xdr pin_i2 = 2 \<and> CHR ''i'' \<in> set (p_dir pin_i2) \<and>
   CHR ''o'' \<notin> set (p_dir pin_i2) \<and>
   count_type ''IDDR'' (added_by Module (get_xdr_buffer Module pin_i2 (Some True) None)) = 3"
proof -
  have h: "pin_ok pin_i2" "p_xdr pin_i2 = 2" "CHR ''i'' \<in> set (p_dir pin_i2)"
    by (simp_all add: pin_i2_def pin_ok_def)
  have n: "CHR ''o'' \<notin> set (p_dir pin_i2)"
    by (simp add: pin_i2_def)
  have w: "p_width pin_i2 = 3"
    by (simp add: pin_i2_def)
  from xdr2_input_iddr [OF h, of None _ Module True] n h show ?thesis
    unfolding w by blast
qed

subsection \<open>The tristate enable\<close>

lemma tristate_dirs:
  assumes "p_dir pin \<in> set [''oe'', ''io'']"
  shows "CHR ''o'' \<in> set (p_dir pin)"
    and "CHR ''i'' \<in> set (p_dir pin) \<longleftrightarrow> p_dir pin = ''io''"
  using assms by auto

lemma enable_registered:
  assumes ok: "pin_ok pin" and d: "p_dir pin \<in> set [''oe'', ''io'']"
    and ii: "p_dir pin = ''io'' \<Longrightarrow> i_invert = Some a"
    and x: "p_xdr pin = 1 \<or> p_xdr pin = 2"
  shows "(\<exists>m' iv ov. get_xdr_buffer m pin i_invert (Some b) =
            Inr (m', iv, ov, Some (Sig (Signal 1 (p_name pin @ ''_xdr_t''))))) \<and>
         filter (\<lambda>(n, x). fed_by (Invert (Sig (p_oe pin))) x)
             (added_by m (get_xdr_buffer m pin i_invert (Some b))) =
           [(None, FDCE (Sig (p_o_clk pin)) (Bit (Invert (Sig (p_oe pin))) 0)
                     (Bit (Sig (Signal 1 (p_name pin @ ''_xdr_t''))) 0))]"
proof -
  let ?T = "Sig (Signal 1 (p_name pin @ ''_xdr_t''))"
  let ?en = "dffs (Sig (p_o_clk pin)) (Invert (Sig (p_oe pin))) ?T"
  have o: "CHR ''o'' \<in> set (p_dir pin)"
    and i: "CHR ''i'' \<in> set (p_dir pin) \<Longrightarrow> i_invert = Some a"
    using tristate_dirs [OF d] ii by auto
  have t: "xdr_t pin = Some ?T"
    using d by (simp add: xdr_t_def)
  have "\<exists>m' data. get_xdr_buffer m pin i_invert (Some b) =
            Inr (m', xdr_i pin, xdr_o pin, xdr_t pin) \<and>
          submodules m' = submodules m @ (data @ ?en) \<and>
          filter (\<lambda>(n, x). fed_by (Invert (Sig (p_oe pin))) x) data = []"
  proof (cases "p_xdr pin = 1")
    case True
    from get_xdr_buffer_xdr1 [OF ok True, of i_invert a "Some b" b m] i o d
    obtain m' where "get_xdr_buffer m pin i_invert (Some b) =
        Inr (m', xdr_i pin, xdr_o pin, xdr_t pin)"
      and "submodules m' = submodules m @
       ((if CHR ''i'' \<in> set (p_dir pin)
         then dffs (Sig (p_i_clk pin)) (Sig (Signal (p_width pin) (p_name pin @ ''_xdr_i'')))
                    (Sig (ineg (p_i pin) a)) else []) @
        dffs (Sig (p_o_clk pin)) (Sig (ineg (p_o pin) b))
                    (Sig (Signal (p_width pin) (p_name pin @ ''_xdr_o'')))) @ ?en"
      by auto
    then show ?thesis
      by (intro exI conjI) (assumption, simp, simp)
  next
    case False
    then have x2: "p_xdr pin = 2" using x by simp
    from get_xdr_buffer_xdr2 [OF ok x2, of i_invert a "Some b" b m] i o d
    obtain m' where "get_xdr_buffer m pin i_invert (Some b) =
        Inr (m', xdr_i pin, xdr_o pin, xdr_t pin)"
      and "submodules m' = submodules m @
       ((if CHR ''i'' \<in> set (p_dir pin)
         then iddrs (Sig (p_i_clk pin)) (Sig (Signal (p_width pin) (p_name pin @ ''_xdr_i'')))
                    (Sig (ineg (p_i0 pin) a)) (Sig (ineg (p_i1 pin) a)) else []) @
        oddrs (Sig (p_o_clk pin)) (Sig (ineg (p_o0 pin) b)) (Sig (ineg (p_o1 pin) b))
                    (Sig (Signal (p_width pin) (p_name pin @ ''_xdr_o'')))) @ ?en"
      by auto
    then show ?thesis
      by (intro exI conjI) (assumption, simp, simp)
  qed
  then obtain m' data where r: "get_xdr_buffer m pin i_invert (Some b) =
            Inr (m', xdr_i pin, xdr_o pin, xdr_t pin)"
    and s: "submodules m' = submodules m @ (data @ ?en)"
    and f: "filter (\<lambda>(n, x). fed_by (Invert (Sig (p_oe pin))) x) data = []"
    by blast
  have a: "added_by m (get_xdr_buffer m pin i_invert (Some b)) = data @ ?en"
    unfolding r using s by (rule added_by_Inr)
  have e: "?en = [(None, FDCE (Sig (p_o_clk pin)) (Bit (Invert (Sig (p_oe pin))) 0) (Bit ?T 0))]"
    by (simp add: dffs_one)
  have fe: "filter (\<lambda>(n, x). fed_by (Invert (Sig (p_oe pin))) x) ?en = ?en"
    unfolding e by simp
  show ?thesis
    unfolding a filter_append f fe using r t unfolding e by simp
qed

lemma enable_combinational:
  assumes d: "p_dir pin \<in> set [''oe'', ''io'']"
    and ii: "p_dir pin = ''io'' \<Longrightarrow> i_invert = Some a"
    and x: "p_xdr pin = 0"
  shows "(\<exists>m' iv ov. get_xdr_buffer m pin i_invert (Some b) =
            Inr (m', iv, ov, Some (Invert (Sig (p_oe pin))))) \<and>
         added_by m (get_xdr_buffer m pin i_invert (Some b)) = []"
proof -
  have o: "CHR ''o'' \<in> set (p_dir pin)"
    and i: "CHR ''i'' \<in> set (p_dir pin) \<Longrightarrow> i_invert = Some a"
    using tristate_dirs [OF d] ii by auto
  from get_xdr_buffer_xdr0 [OF x, of i_invert a "Some b" b m] i o d
  obtain m' iv ov where r: "get_xdr_buffer m pin i_invert (Some b) =
        Inr (m', iv, ov, Some (Invert (Sig (p_oe pin))))"
    and s: "submodules m' = submodules m @ []"
    by auto
  have "added_by m (get_xdr_buffer m pin i_invert (Some b)) = []"
    unfolding r using s by (rule added_by_Inr)
  with r show ?thesis by blast
qed

text \<open>
  C8. For every well-formed tristate (\<open>''oe''\<close>) or inout (\<open>''io''\<close>) pin request,
  \<^verbatim>\<open>_get_xdr_buffer\<close> returns. At level 0 the tristate enable it returns is the expression
  \<^verbatim>\<open>~pin.oe\<close> and no instance at all is added. At levels 1 and 2 the tristate enable is the
  one-bit signal \<^verbatim>\<open>t\<close>, and among the instances added exactly one is fed by the negated
  output enable: an FDCE (the level-1 register, packed into the IOB) clocked by \<^verbatim>\<open>o_clk\<close>,
  with D bit 0 of \<^verbatim>\<open>~pin.oe\<close> and Q bit 0 of \<^verbatim>\<open>t\<close>; so at level 2 no IDDR or ODDR takes
  it.
\<close>

theorem tristate_enable:
  assumes "pin_ok pin" and "p_dir pin \<in> set [''oe'', ''io'']"
    and "p_dir pin = ''io'' \<Longrightarrow> i_invert = Some a"
  shows "(p_xdr pin = 0 \<longrightarrow>
            (\<exists>m' iv ov. get_xdr_buffer m pin i_invert (Some b) =
               Inr (m', iv, ov, Some (Invert (Sig (p_oe pin))))) \<and>
            added_by m (get_xdr_buffer m pin i_invert (Some b)) = []) \<and>
         (p_xdr pin = 1 \<or> p_xdr pin = 2 \<longrightarrow>
            (\<exists>m' iv ov. get_xdr_buffer m pin i_invert (Some b) =
               Inr (m', iv, ov, Some (Sig (Signal 1 (p_name pin @ ''_xdr_t''))))) \<and>
            filter (\<lambda>(n, x). fed_by (Invert (Sig (p_oe pin))) x)
                (added_by m (get_xdr_buffer m pin i_invert (Some b))) =
              [(None,
                \<lparr>inst_type = ''FDCE'',
                 inst_params = [],
                 inst_attrs = [(''IOB'', ''TRUE'')],
                 inst_inputs = [(''C'', Sig (p_o_clk pin)), (''CE'', Const 1), (''CLR'', Const 0),
                                (''D'', Bit (Invert (Sig (p_oe pin))) 0)],
                 inst_outputs = [(''Q'', Bit (Sig (Signal 1 (p_name pin @ ''_xdr_t''))) 0)]\<rparr>)])"
  using enable_combinational [OF assms(2,3), of m b]
    enable_registered [OF assms, of m b]
  by (simp add: FDCE_def)

theorem tristate_enable_witness:
  "pin_ok pin_oe2 \<and> p_dir pin_oe2 \<in> set [''oe'', ''io''] \<and> p_dir pin_oe2 \<noteq> ''io'' \<and>
   p_xdr pin_oe2 = 2 \<and>
   (\<exists>m' iv ov. get_xdr_buffer Module pin_oe2 None (Some False) =
      Inr (m', iv, ov, Some (Sig (Signal 1 ''t_xdr_t'')))) \<and>
   length (filter (\<lambda>(n, x). fed_by (Invert (Sig (p_oe pin_oe2))) x)
      (added_by Module (get_xdr_buffer Module pin_oe2 None (Some False)))) = 1"
proof -
  have h: "pin_ok pin_oe2" "p_dir pin_oe2 \<in> set [''oe'', ''io'']"
    by (simp_all add: pin_oe2_def pin_ok_def)
  have n: "p_dir pin_oe2 \<noteq> ''io''" and x: "p_xdr pin_oe2 = 2"
    and nm: "p_name pin_oe2 @ ''_xdr_t'' = ''t_xdr_t''"
    by (simp_all add: pin_oe2_def)
  from tristate_enable [OF h, of None _ Module False] n x h show ?thesis
    unfolding nm by auto
qed

subsection \<open>The output buffer under the two profiles\<close>

lemma get_xdr_buffer_output_xdr0:
  assumes "p_xdr pin = 0" and "p_dir pin = ''o''"
  shows "get_xdr_buffer Module pin None (Some True) =
     Inr (\<lparr>submodules = [], domains = [],
           statements = [(''comb'', Assign (Sig (Signal_like (p_o pin) ''_n''))
                                     (Invert (Sig (p_o pin))))]\<rparr>,
          None, Some (Sig (Signal_like (p_o pin) ''_n'')), None)"
  using assms
  by (simp add: get_xdr_buffer_def invert_inputs_def invert_outputs_def get_oneg_def Let_def
        xdr_i_def xdr_o_def xdr_t_def local_var_def add_stmt_def Module_def)

lemma obuf_bits_ok:
  "\<forall>b\<in>set bits. b < len v \<and> b < sig_width (port_io port) \<Longrightarrow>
   obuf_bits pin port (Some v) bits m =
     Inr (m\<lparr>submodules := submodules m @
            map (\<lambda>k. (Some (p_name pin @ ''_'' @ str_nat k),
                       OBUF (Bit v k) (Bit (Sig (port_io port)) k))) bits\<rparr>)"
  by (induction bits arbitrary: m) (auto simp: index_def add_submodule_def not_none_def)

lemma complement_less: "(2::nat) ^ w - 1 - a mod 2 ^ w < 2 ^ w"
  by (simp add: less_imp_diff_less)

lemma complement_twice: "(2::nat) ^ w - 1 - (2 ^ w - 1 - a mod 2 ^ w) = a mod 2 ^ w"
proof -
  have "a mod 2 ^ w < (2::nat) ^ w" by simp
  then show ?thesis by arith
qed

lemma get_output_symbiflow:
  assumes "p_xdr pin = 0" and "p_dir pin = ''o''" and "toolchain p = ''Symbiflow''"
  shows "get_output p pin port attrs True =
     Inr \<lparr>submodules = [], domains = [],
          statements =
            [(''comb'', Assign (Sig (Signal_like (p_o pin) ''_n'')) (Invert (Sig (p_o pin)))),
             (''comb'', Assign (Sig (port_io port))
                          (Invert (Sig (Signal_like (p_o pin) ''_n''))))]\<rparr>"
  using assms(1,3)
  by (simp add: get_output_def check_feature_def get_xdr_buffer_output_xdr0 [OF assms(1,2)]
        not_none_def invert_if_def add_stmt_def)

lemma get_output_vivado:
  assumes "p_xdr pin = 0" and "p_dir pin = ''o''" and "toolchain p = ''Vivado''"
    and "sig_width (p_o pin) = p_width pin" and "p_width pin \<le> sig_width (port_io port)"
  shows "get_output p pin port attrs True =
     Inr \<lparr>submodules =
            map (\<lambda>k. (Some (p_name pin @ ''_'' @ str_nat k),
                   OBUF (Bit (Sig (Signal_like (p_o pin) ''_n'')) k) (Bit (Sig (port_io port)) k)))
              [0..<p_width pin],
          domains = [],
          statements =
            [(''comb'', Assign (Sig (Signal_like (p_o pin) ''_n'')) (Invert (Sig (p_o pin))))]\<rparr>"
proof -
  have b: "\<forall>b\<in>set [0..<p_width pin].
             b < len (Sig (Signal_like (p_o pin) ''_n'')) \<and> b < sig_width (port_io port)"
    using assms(4,5) by (simp add: Signal_like_def)
  show ?thesis
    using assms(1,3)
    by (simp add: get_output_def check_feature_def get_xdr_buffer_output_xdr0 [OF assms(1,2)]
          obuf_bits_ok [OF b])
qed

text \<open>
  C9. For a level-0 single-ended output request (direction \<open>''o''\<close>) with the invert flag set:
  under the Symbiflow profile \<^verbatim>\<open>get_output\<close> inverts twice. \<^verbatim>\<open>_get_xdr_buffer\<close> (through
  \<^verbatim>\<open>get_oneg\<close>) drives a new signal from \<^verbatim>\<open>~pin.o\<close>, and the port is then driven from
  \<^verbatim>\<open>~\<close> of that signal (through \<^verbatim>\<open>_invert_if\<close>); these two combinational statements are the
  whole module, and in every valuation that satisfies them the port (of the width of
  \<^verbatim>\<open>pin.o\<close>) has the value of \<^verbatim>\<open>pin.o\<close>, not inverted. Under the Vivado profile there is the
  first statement only, and the OBUF of each bit takes that bit of the new signal, whose
  value is the complement of \<^verbatim>\<open>pin.o\<close>.
\<close>

theorem output_inverted_twice:
  assumes "p_xdr pin = 0" and "p_dir pin = ''o''"
  shows "(toolchain p = ''Symbiflow'' \<longrightarrow>
            get_output p pin port attrs True =
              Inr \<lparr>submodules = [], domains = [],
                   statements =
                     [(''comb'', Assign (Sig (Signal_like (p_o pin) ''_n''))
                                   (Invert (Sig (p_o pin)))),
                      (''comb'', Assign (Sig (port_io port))
                                   (Invert (Sig (Signal_like (p_o pin) ''_n''))))]\<rparr> \<and>
            (\<forall>m \<sigma>. get_output p pin port attrs True = Inr m \<and> comb_holds m \<sigma> \<and>
                    sig_width (port_io port) = sig_width (p_o pin) \<longrightarrow>
                  eval \<sigma> (Sig (port_io port)) = eval \<sigma> (Sig (p_o pin)))) \<and>
         (toolchain p = ''Vivado'' \<and> sig_width (p_o pin) = p_width pin \<and>
            p_width pin \<le> sig_width (port_io port) \<longrightarrow>
            get_output p pin port attrs True =
              Inr \<lparr>submodules =
                     map (\<lambda>k. (Some (p_name pin @ ''_'' @ str_nat k),
                            \<lparr>inst_type = ''OBUF'', inst_params = [], inst_attrs = [],
                             inst_inputs = [(''I'', Bit (Sig (Signal_like (p_o pin) ''_n'')) k)],
                             inst_outputs = [(''O'', Bit (Sig (port_io port)) k)]\<rparr>))
                       [0..<p_width pin],
                   domains = [],
                   statements =
                     [(''comb'', Assign (Sig (Signal_like (p_o pin) ''_n''))
                                   (Invert (Sig (p_o pin))))]\<rparr> \<and>
            (\<forall>m \<sigma>. get_output p pin port attrs True = Inr m \<and> comb_holds m \<sigma> \<longrightarrow>
                  eval \<sigma> (Sig (Signal_like (p_o pin) ''_n'')) =
                    2 ^ sig_width (p_o pin) - 1 - eval \<sigma> (Sig (p_o pin))))"
proof (intro conjI impI)
  assume s: "toolchain p = ''Symbiflow''"
  show "get_output p pin port attrs True =
              Inr \<lparr>submodules = [], domains = [],
                   statements =
                     [(''comb'', Assign (Sig (Signal_like (p_o pin) ''_n''))
                                   (Invert (Sig (p_o pin)))),
                      (''comb'', Assign (Sig (port_io port))
                                   (Invert (Sig (Signal_like (p_o pin) ''_n''))))]\<rparr>"
    by (rule get_output_symbiflow [OF assms s])
  show "\<forall>m \<sigma>. get_output p pin port attrs True = Inr m \<and> comb_holds m \<sigma> \<and>
                    sig_width (port_io port) = sig_width (p_o pin) \<longrightarrow>
                  eval \<sigma> (Sig (port_io port)) = eval \<sigma> (Sig (p_o pin))"
  proof (intro allI impI)
    fix m \<sigma>
    assume h: "get_output p pin port attrs True = Inr m \<and> comb_holds m \<sigma> \<and>
                    sig_width (port_io port) = sig_width (p_o pin)"
    let ?w = "sig_width (p_o pin)"
    let ?n = "Signal_like (p_o pin) ''_n''"
    from h have c: "comb_holds \<lparr>submodules = [], domains = [],
                   statements =
                     [(''comb'', Assign (Sig ?n) (Invert (Sig (p_o pin)))),
                      (''comb'', Assign (Sig (port_io port)) (Invert (Sig ?n)))]\<rparr> \<sigma>"
      and w: "sig_width (port_io port) = ?w"
      unfolding get_output_symbiflow [OF assms s] by simp_all
    have wn: "sig_width ?n = ?w" by (simp add: Signal_like_def)
    from c have 1: "eval \<sigma> (Sig ?n) = 2 ^ ?w - 1 - \<sigma> (Sig (p_o pin)) mod 2 ^ ?w"
      and 2: "eval \<sigma> (Sig (port_io port)) = 2 ^ ?w - 1 - eval \<sigma> (Sig ?n)"
      using complement_less [of ?w]
      by (simp_all add: comb_holds_def drivers_def fit_def w wn)
    show "eval \<sigma> (Sig (port_io port)) = eval \<sigma> (Sig (p_o pin))"
      unfolding 2 1 using complement_twice [of ?w "\<sigma> (Sig (p_o pin))"] by simp
  qed
next
  assume v: "toolchain p = ''Vivado'' \<and> sig_width (p_o pin) = p_width pin \<and>
            p_width pin \<le> sig_width (port_io port)"
  note g = get_output_vivado [OF assms, of p port attrs]
  show "get_output p pin port attrs True =
              Inr \<lparr>submodules =
                     map (\<lambda>k. (Some (p_name pin @ ''_'' @ str_nat k),
                            \<lparr>inst_type = ''OBUF'', inst_params = [], inst_attrs = [],
                             inst_inputs = [(''I'', Bit (Sig (Signal_like (p_o pin) ''_n'')) k)],
                             inst_outputs = [(''O'', Bit (Sig (port_io port)) k)]\<rparr>))
                       [0..<p_width pin],
                   domains = [],
                   statements =
                     [(''comb'', Assign (Sig (Signal_like (p_o pin) ''_n''))
                                   (Invert (Sig (p_o pin))))]\<rparr>"
    using g v by (simp add: OBUF_def)
  show "\<forall>m \<sigma>. get_output p pin port attrs True = Inr m \<and> comb_holds m \<sigma> \<longrightarrow>
                  eval \<sigma> (Sig (Signal_like (p_o pin) ''_n'')) =
                    2 ^ sig_width (p_o pin) - 1 - eval \<sigma> (Sig (p_o pin))"
  proof (intro allI impI)
    fix m \<sigma>
    assume h: "get_output p pin port attrs True = Inr m \<and> comb_holds m \<sigma>"
    let ?w = "sig_width (p_o pin)"
    let ?n = "Signal_like (p_o pin) ''_n''"
    have wn: "sig_width ?n = ?w" by (simp add: Signal_like_def)
    from h g v have "list_all (\<lambda>(l, r). eval \<sigma> l = fit l r (eval \<sigma> r))
        [(Sig ?n, Invert (Sig (p_o pin)))]"
      by (auto simp: comb_holds_def drivers_def)
    then show "eval \<sigma> (Sig ?n) = 2 ^ ?w - 1 - eval \<sigma> (Sig (p_o pin))"
      using complement_less [of ?w]
      by (simp add: fit_def wn)
  qed
qed

theorem output_inverted_twice_witness:
  "p_xdr pin_led = 0 \<and> p_dir pin_led = ''o'' \<and>
   (\<exists>m. get_output \<lparr>toolchain = ''Symbiflow'', base = ()\<rparr> pin_led port_led [] True = Inr m \<and>
      comb_holds m led_on \<and> sig_width (port_io port_led) = sig_width (p_o pin_led) \<and>
      eval led_on (Sig (p_o pin_led)) = 1 \<and>
      eval led_on (Sig (port_io port_led)) = eval led_on (Sig (p_o pin_led)))"
proof -
  have h: "p_xdr pin_led = 0" "p_dir pin_led = ''o''"
    by (simp_all add: pin_led_def)
  note t = output_inverted_twice [OF h, where p = "\<lparr>toolchain = ''Symbiflow'', base = ()\<rparr>"
      and port = port_led and attrs = "[]"]
  let ?m = "\<lparr>submodules = [], domains = [],
              statements =
                [(''comb'', Assign (Sig (Signal_like (p_o pin_led) ''_n''))
                              (Invert (Sig (p_o pin_led)))),
                 (''comb'', Assign (Sig (port_io port_led))
                              (Invert (Sig (Signal_like (p_o pin_led) ''_n''))))]\<rparr>"
  have ts: "toolchain \<lparr>toolchain = ''Symbiflow'', base = ()\<rparr> = ''Symbiflow''"
    by simp
  note t1 = t [THEN conjunct1, THEN mp, OF ts]
  have g: "get_output \<lparr>toolchain = ''Symbiflow'', base = ()\<rparr> pin_led port_led [] True =
      Inr ?m"
    by (rule t1 [THEN conjunct1])
  have c: "comb_holds ?m led_on"
    by (simp add: comb_holds_def drivers_def fit_def led_on_def pin_led_def port_led_def
          Signal_def Signal_like_def)
  have w: "sig_width (port_io port_led) = sig_width (p_o pin_led)"
    by (simp add: pin_led_def port_led_def)
  have one: "eval led_on (Sig (p_o pin_led)) = 1"
    by (simp add: led_on_def pin_led_def Signal_def Signal_like_def)
  from t1 [THEN conjunct2] g c w
  have e: "eval led_on (Sig (port_io port_led)) = eval led_on (Sig (p_o pin_led))"
    by blast
  from h g c w one e show ?thesis by blast
qed

section \<open>Properties of the synchronizers\<close>

subsection \<open>What the generators compute\<close>

lemma chain_fold:
  "statements (fold (\<lambda>(i, ov) m. add_stmt m d (Assign (Sig ov) i)) ps m) =
     statements m @ map (\<lambda>(i, ov). (d, Assign (Sig ov) i)) ps \<and>
   submodules (fold (\<lambda>(i, ov) m. add_stmt m d (Assign (Sig ov) i)) ps m) = submodules m \<and>
   domains (fold (\<lambda>(i, ov) m. add_stmt m d (Assign (Sig ov) i)) ps m) = domains m"
  by (induction ps arbitrary: m) (auto simp: add_stmt_def)

lemma zip_chain:
  "zip (first # map Sig flops) flops =
     map (\<lambda>k. (if k = 0 then first else Sig (flops ! (k - 1)), flops ! k)) [0..<length flops]"
  by (rule nth_equalityI) (auto simp: nth_Cons split: nat.splits)

lemma chain_statements:
  "statements (chain m d first flops) =
     statements m @
     map (\<lambda>k. (d, Assign (Sig (flops ! k)) (if k = 0 then first else Sig (flops ! (k - 1)))))
       [0..<length flops]"
  unfolding chain_def by (simp add: chain_fold zip_chain comp_def)

lemma chain_domains [simp]: "domains (chain m d first flops) = domains m"
  unfolding chain_def by (simp add: chain_fold)

lemma chain_submodules [simp]: "submodules (chain m d first flops) = submodules m"
  unfolding chain_def by (simp add: chain_fold)

lemma mark_first_ok:
  assumes "xs \<noteq> []"
  shows "\<exists>ys. mark_first xs d = Inr ys \<and> length ys = length xs \<and>
           ys ! 0 = (case d of
                       None \<Rightarrow> set_attr (xs ! 0) ''nmigen.vivado.false_path'' (Str ''TRUE'')
                     | Some x \<Rightarrow> set_attr (xs ! 0) ''nmigen.vivado.max_delay''
                                  (Str_of_float (x * 1000000000))) \<and>
           (\<forall>k. 0 < k \<longrightarrow> ys ! k = xs ! k)"
  using assms by (cases xs; cases d) (auto simp: mark_first_def)

lemma mark_first_empty: "mark_first [] d = Inl IndexError"
  by (simp add: mark_first_def)

lemma last_nth: "xs \<noteq> [] \<Longrightarrow> last xs = xs ! (length xs - 1)"
  by (simp add: last_conv_nth)

subsection \<open>The stages and their attributes\<close>

text \<open>
  C2. For every call of \<^verbatim>\<open>get_ff_sync\<close> with a stage count S of at least 1, the call
  returns a module over exactly S stage signals: stage 0 is assigned the source,
  stage k the stage k - 1, each assignment in the target domain, and the output is assigned
  the last stage in the combinational domain; there is no other statement. Every stage
  carries ASYNC\_REG = TRUE. Stage 0, and no other stage, carries a timing exception:
  nmigen.vivado.false\_path = TRUE when no maximum input delay is given, otherwise
  nmigen.vivado.max\_delay, the text of the delay in seconds times 1e9 (the product taken in
  the reals).
\<close>

theorem ff_sync_stages:
  assumes "0 < ff_stages s"
  shows "\<exists>flops m. ff_sync_flops s = Inr flops \<and> get_ff_sync s = Inr m \<and>
           length flops = ff_stages s \<and>
           statements m =
             map (\<lambda>k. (ff_o_domain s,
                    Assign (Sig (flops ! k)) (if k = 0 then ff_i s else Sig (flops ! (k - 1)))))
               [0..<ff_stages s] @
             [(''comb'', Assign (Sig (ff_o s)) (Sig (flops ! (ff_stages s - 1))))] \<and>
           (\<forall>k<ff_stages s.
              sig_name (flops ! k) = ''stage'' @ str_nat k \<and>
              map_of (sig_attrs (flops ! k)) ''ASYNC_REG'' = Some (Str ''TRUE'') \<and>
              map_of (sig_attrs (flops ! k)) ''nmigen.vivado.false_path'' =
                (if k = 0 \<and> ff_max_input_delay s = None then Some (Str ''TRUE'') else None) \<and>
              map_of (sig_attrs (flops ! k)) ''nmigen.vivado.max_delay'' =
                (if k = 0
                 then map_option (\<lambda>d. Str_of_float (d * 1000000000)) (ff_max_input_delay s)
                 else None))"
proof -
  let ?stage = "\<lambda>index. \<lparr>sig_name = ''stage'' @ str_nat index,
                       sig_width = fst (shape (ff_i s)), sig_signed = snd (shape (ff_i s)),
                       sig_reset = ff_reset s, sig_reset_less = ff_reset_less s,
                       sig_attrs = [(''ASYNC_REG'', Str ''TRUE'')]\<rparr>"
  let ?xs = "map ?stage [0..<ff_stages s]"
  have ne: "?xs \<noteq> []" using assms by simp
  from mark_first_ok [OF ne, of "ff_max_input_delay s"]
  obtain flops where f: "mark_first ?xs (ff_max_input_delay s) = Inr flops"
    and l: "length flops = ff_stages s"
    and z: "flops ! 0 = (case ff_max_input_delay s of
                       None \<Rightarrow> set_attr (?xs ! 0) ''nmigen.vivado.false_path'' (Str ''TRUE'')
                     | Some x \<Rightarrow> set_attr (?xs ! 0) ''nmigen.vivado.max_delay''
                                  (Str_of_float (x * 1000000000)))"
    and r: "\<forall>k. 0 < k \<longrightarrow> flops ! k = ?xs ! k"
    by auto
  have ff: "ff_sync_flops s = Inr flops"
    unfolding ff_sync_flops_def by (rule f)
  have fne: "flops \<noteq> []" using l assms by auto
  have m: "get_ff_sync s =
      Inr (add_stmt (chain Module (ff_o_domain s) (ff_i s) flops) ''comb''
             (Assign (Sig (ff_o s)) (Sig (last flops))))"
    by (simp add: get_ff_sync_def ff)
  have st: "statements (add_stmt (chain Module (ff_o_domain s) (ff_i s) flops) ''comb''
             (Assign (Sig (ff_o s)) (Sig (last flops)))) =
             map (\<lambda>k. (ff_o_domain s,
                    Assign (Sig (flops ! k)) (if k = 0 then ff_i s else Sig (flops ! (k - 1)))))
               [0..<ff_stages s] @
             [(''comb'', Assign (Sig (ff_o s)) (Sig (flops ! (ff_stages s - 1))))]"
    by (simp add: add_stmt_def chain_statements Module_def last_nth [OF fne] l)
  have at: "sig_name (flops ! k) = ''stage'' @ str_nat k \<and>
              map_of (sig_attrs (flops ! k)) ''ASYNC_REG'' = Some (Str ''TRUE'') \<and>
              map_of (sig_attrs (flops ! k)) ''nmigen.vivado.false_path'' =
                (if k = 0 \<and> ff_max_input_delay s = None then Some (Str ''TRUE'') else None) \<and>
              map_of (sig_attrs (flops ! k)) ''nmigen.vivado.max_delay'' =
                (if k = 0
                 then map_option (\<lambda>d. Str_of_float (d * 1000000000)) (ff_max_input_delay s)
                 else None)"
    if k: "k < ff_stages s" for k
  proof (cases "k = 0")
    case True
    show ?thesis
      using assms unfolding True z
      by (cases "ff_max_input_delay s") (simp_all add: set_attr_def)
  next
    case False
    then have "flops ! k = ?xs ! k" using r by simp
    then show ?thesis using k False by simp
  qed
  from ff m l st at show ?thesis by blast
qed

theorem ff_sync_stages_witness:
  "0 < ff_stages sync3 \<and>
   (\<exists>flops m. ff_sync_flops sync3 = Inr flops \<and> get_ff_sync sync3 = Inr m \<and>
      length flops = 3 \<and> length (statements m) = 4 \<and>
      map_of (sig_attrs (flops ! 0)) ''nmigen.vivado.max_delay'' = Some (Str_of_float 3) \<and>
      map_of (sig_attrs (flops ! 0)) ''nmigen.vivado.false_path'' = None \<and>
      map_of (sig_attrs (flops ! 1)) ''nmigen.vivado.max_delay'' = None \<and>
      map_of (sig_attrs (flops ! 2)) ''nmigen.vivado.max_delay'' = None \<and>
      map_of (sig_attrs (flops ! 2)) ''ASYNC_REG'' = Some (Str ''TRUE''))"
proof -
  have h: "0 < ff_stages sync3" by (simp add: sync3_def)
  have n: "ff_stages sync3 = 3" and d: "ff_max_input_delay sync3 = Some (3 / 1000000000)"
    by (simp_all add: sync3_def)
  from ff_sync_stages [OF h] obtain flops m where
    1: "ff_sync_flops sync3 = Inr flops" "get_ff_sync sync3 = Inr m" "length flops = 3"
    and 2: "statements m =
             map (\<lambda>k. (ff_o_domain sync3,
                    Assign (Sig (flops ! k)) (if k = 0 then ff_i sync3 else Sig (flops ! (k - 1)))))
               [0..<3] @
             [(''comb'', Assign (Sig (ff_o sync3)) (Sig (flops ! (3 - 1))))]"
    and 3: "\<forall>k<3.
              sig_name (flops ! k) = ''stage'' @ str_nat k \<and>
              map_of (sig_attrs (flops ! k)) ''ASYNC_REG'' = Some (Str ''TRUE'') \<and>
              map_of (sig_attrs (flops ! k)) ''nmigen.vivado.false_path'' =
                (if k = 0 \<and> ff_max_input_delay sync3 = None then Some (Str ''TRUE'') else None) \<and>
              map_of (sig_attrs (flops ! k)) ''nmigen.vivado.max_delay'' =
                (if k = 0
                 then map_option (\<lambda>d. Str_of_float (d * 1000000000)) (ff_max_input_delay sync3)
                 else None)"
    unfolding n by blast
  have 4: "length (statements m) = 4" unfolding 2 by simp
  from 3 have a0: "map_of (sig_attrs (flops ! 0)) ''nmigen.vivado.max_delay'' = Some (Str_of_float 3)"
    and b0: "map_of (sig_attrs (flops ! 0)) ''nmigen.vivado.false_path'' = None"
    and a1: "map_of (sig_attrs (flops ! 1)) ''nmigen.vivado.max_delay'' = None"
    and a2: "map_of (sig_attrs (flops ! 2)) ''nmigen.vivado.max_delay'' = None"
    and c2: "map_of (sig_attrs (flops ! 2)) ''ASYNC_REG'' = Some (Str ''TRUE'')"
    by (simp_all add: d)
  from h 1 4 a0 b0 a1 a2 c2 show ?thesis by blast
qed

subsection \<open>The asynchronous-reset chain\<close>

lemma async_ff_sync_module:
  assumes "0 < aff_stages s"
  shows "\<exists>flops. async_ff_sync_flops s = Inr flops \<and> length flops = aff_stages s \<and>
           get_async_ff_sync s =
             Inr \<lparr>submodules = [],
                  domains = [\<lparr>cd_name = ''async_ff'', cd_async_reset = True, cd_local = True\<rparr>],
                  statements =
                    map (\<lambda>k. (''async_ff'',
                           Assign (Sig (flops ! k))
                             (if k = 0 then Const 0 else Sig (flops ! (k - 1)))))
                      [0..<aff_stages s] @
                    [(''comb'', Assign (ResetSignal ''async_ff'')
                        (if aff_edge s = ''pos'' then aff_i s else Invert (aff_i s))),
                     (''comb'', Assign (ClockSignal ''async_ff'') (ClockSignal (aff_o_domain s))),
                     (''comb'', Assign (Sig (aff_o s)) (Sig (flops ! (aff_stages s - 1))))]\<rparr> \<and>
           (\<forall>k<aff_stages s.
              sig_name (flops ! k) = ''stage'' @ str_nat k \<and> sig_width (flops ! k) = 1 \<and>
              \<not> sig_signed (flops ! k) \<and> sig_reset (flops ! k) = 1)"
proof -
  let ?stage = "\<lambda>index. \<lparr>sig_name = ''stage'' @ str_nat index,
                       sig_width = 1, sig_signed = False,
                       sig_reset = 1, sig_reset_less = False,
                       sig_attrs = [(''ASYNC_REG'', Str ''TRUE'')]\<rparr>"
  let ?xs = "map ?stage [0..<aff_stages s]"
  have ne: "?xs \<noteq> []" using assms by simp
  from mark_first_ok [OF ne, of "aff_max_input_delay s"]
  obtain flops where f: "mark_first ?xs (aff_max_input_delay s) = Inr flops"
    and l: "length flops = aff_stages s"
    and z: "flops ! 0 = (case aff_max_input_delay s of
                       None \<Rightarrow> set_attr (?xs ! 0) ''nmigen.vivado.false_path'' (Str ''TRUE'')
                     | Some x \<Rightarrow> set_attr (?xs ! 0) ''nmigen.vivado.max_delay''
                                  (Str_of_float (x * 1000000000)))"
    and r: "\<forall>k. 0 < k \<longrightarrow> flops ! k = ?xs ! k"
    by auto
  have ff: "async_ff_sync_flops s = Inr flops"
    unfolding async_ff_sync_flops_def by (rule f)
  have fne: "flops \<noteq> []" using l assms by auto
  have m: "get_async_ff_sync s =
             Inr \<lparr>submodules = [],
                  domains = [\<lparr>cd_name = ''async_ff'', cd_async_reset = True, cd_local = True\<rparr>],
                  statements =
                    map (\<lambda>k. (''async_ff'',
                           Assign (Sig (flops ! k))
                             (if k = 0 then Const 0 else Sig (flops ! (k - 1)))))
                      [0..<aff_stages s] @
                    [(''comb'', Assign (ResetSignal ''async_ff'')
                        (if aff_edge s = ''pos'' then aff_i s else Invert (aff_i s))),
                     (''comb'', Assign (ClockSignal ''async_ff'') (ClockSignal (aff_o_domain s))),
                     (''comb'', Assign (Sig (aff_o s)) (Sig (flops ! (aff_stages s - 1))))]\<rparr>"
    by (simp add: get_async_ff_sync_def ff Let_def add_stmt_def add_domain_def
          chain_statements Module_def last_nth [OF fne] l)
  have at: "sig_name (flops ! k) = ''stage'' @ str_nat k \<and> sig_width (flops ! k) = 1 \<and>
              \<not> sig_signed (flops ! k) \<and> sig_reset (flops ! k) = 1"
    if k: "k < aff_stages s" for k
  proof (cases "k = 0")
    case True
    show ?thesis
      using assms unfolding True z
      by (cases "aff_max_input_delay s") (simp_all add: set_attr_def)
  next
    case False
    then have "flops ! k = ?xs ! k" using r by simp
    then show ?thesis using k False by simp
  qed
  from ff m l at show ?thesis by blast
qed

text \<open>
  C3. For every call of \<^verbatim>\<open>get_async_ff_sync\<close> with at least one stage, the module has the
  one clock domain \<open>async_ff\<close>, local and with asynchronous reset; exactly one statement
  drives that domain's reset signal: combinationally, from the source itself when the edge
  is \<open>''pos''\<close> and from \<^verbatim>\<open>~\<close> of the source for any other edge; and every stage signal has
  the reset value 1 (the generator has no reset value of the caller's to use).
\<close>

theorem async_ff_sync_reset:
  assumes "0 < aff_stages s"
  shows "\<exists>flops m. async_ff_sync_flops s = Inr flops \<and> get_async_ff_sync s = Inr m \<and>
           length flops = aff_stages s \<and>
           domains m = [\<lparr>cd_name = ''async_ff'', cd_async_reset = True, cd_local = True\<rparr>] \<and>
           filter (\<lambda>(d, st). case st of Assign l r \<Rightarrow> l = ResetSignal ''async_ff'')
               (statements m) =
             [(''comb'', Assign (ResetSignal ''async_ff'')
                 (if aff_edge s = ''pos'' then aff_i s else Invert (aff_i s)))] \<and>
           filter (\<lambda>(d, st). d = ''async_ff'') (statements m) =
             map (\<lambda>k. (''async_ff'',
                    Assign (Sig (flops ! k)) (if k = 0 then Const 0 else Sig (flops ! (k - 1)))))
               [0..<aff_stages s] \<and>
           (\<forall>k<aff_stages s. sig_reset (flops ! k) = 1)"
proof -
  from async_ff_sync_module [OF assms] obtain flops where
    f: "async_ff_sync_flops s = Inr flops" "length flops = aff_stages s"
    and m: "get_async_ff_sync s =
             Inr \<lparr>submodules = [],
                  domains = [\<lparr>cd_name = ''async_ff'', cd_async_reset = True, cd_local = True\<rparr>],
                  statements =
                    map (\<lambda>k. (''async_ff'',
                           Assign (Sig (flops ! k))
                             (if k = 0 then Const 0 else Sig (flops ! (k - 1)))))
                      [0..<aff_stages s] @
                    [(''comb'', Assign (ResetSignal ''async_ff'')
                        (if aff_edge s = ''pos'' then aff_i s else Invert (aff_i s))),
                     (''comb'', Assign (ClockSignal ''async_ff'') (ClockSignal (aff_o_domain s))),
                     (''comb'', Assign (Sig (aff_o s)) (Sig (flops ! (aff_stages s - 1))))]\<rparr>"
    and a: "\<forall>k<aff_stages s.
              sig_name (flops ! k) = ''stage'' @ str_nat k \<and> sig_width (flops ! k) = 1 \<and>
              \<not> sig_signed (flops ! k) \<and> sig_reset (flops ! k) = 1"
    by blast
  show ?thesis
    apply (rule exI [of _ flops])
    apply (rule exI)
    apply (intro conjI)
          apply (rule f(1))
         apply (rule m)
        apply (rule f(2))
       apply simp
      apply (simp add: filter_map comp_def)
     apply (simp add: filter_map comp_def)
    using a apply simp
    done
qed

theorem async_ff_sync_reset_witness:
  "0 < aff_stages async2 \<and>
   (\<exists>flops m. async_ff_sync_flops async2 = Inr flops \<and> get_async_ff_sync async2 = Inr m \<and>
      length flops = 2 \<and>
      filter (\<lambda>(d, st). case st of Assign l r \<Rightarrow> l = ResetSignal ''async_ff'') (statements m) =
        [(''comb'', Assign (ResetSignal ''async_ff'') (Invert (Sig (Signal 1 ''rst''))))] \<and>
      sig_reset (flops ! 0) = 1 \<and> sig_reset (flops ! 1) = 1)"
proof -
  have h: "0 < aff_stages async2" by (simp add: async2_def)
  have n: "aff_stages async2 = 2"
    and e: "(if aff_edge async2 = ''pos'' then aff_i async2 else Invert (aff_i async2)) =
            Invert (Sig (Signal 1 ''rst''))"
    by (simp_all add: async2_def)
  from async_ff_sync_reset [OF h] obtain flops m where
    1: "async_ff_sync_flops async2 = Inr flops" "get_async_ff_sync async2 = Inr m"
      "length flops = 2"
      "filter (\<lambda>(d, st). case st of Assign l r \<Rightarrow> l = ResetSignal ''async_ff'') (statements m) =
        [(''comb'', Assign (ResetSignal ''async_ff'') (Invert (Sig (Signal 1 ''rst''))))]"
    and 2: "\<forall>k<2. sig_reset (flops ! k) = 1"
    unfolding n e by blast
  from 2 have "sig_reset (flops ! 0) = 1" "sig_reset (flops ! 1) = 1" by simp_all
  with h 1 show ?thesis by blast
qed

subsection \<open>The asynchronous-reset chain, clocked\<close>

lemma digit_inj: "a < 10 \<Longrightarrow> b < 10 \<Longrightarrow> digit a = digit b \<Longrightarrow> a = b"
proof -
  assume a: "a < 10" and b: "b < 10" and e: "digit a = digit b"
  from e have "of_char (char_of (48 + a)) = (of_char (char_of (48 + b)) :: nat)"
    by (simp add: digit_def)
  then have "(48 + a) mod 256 = (48 + b) mod 256"
    by simp
  with a b show "a = b" by simp
qed

lemma str_nat_nonempty: "str_nat n \<noteq> []" "[] \<noteq> str_nat n"
  by (subst str_nat.simps, simp)+

lemma str_nat_inj: "str_nat a = str_nat b \<Longrightarrow> a = b"
proof (induction a arbitrary: b rule: str_nat.induct)
  case (1 a)
  show ?case
  proof (cases "a < 10")
    case True
    note a = True
    show ?thesis
    proof (cases "b < 10")
      case True
      with a "1.prems" show ?thesis
        by (simp add: str_nat.simps [of a] str_nat.simps [of b] digit_inj)
    next
      case False
      with a "1.prems" show ?thesis
        by (simp add: str_nat.simps [of a] str_nat.simps [of b] str_nat_nonempty)
    qed
  next
    case False
    note a = False
    show ?thesis
    proof (cases "b < 10")
      case True
      with a "1.prems" show ?thesis
        by (simp add: str_nat.simps [of a] str_nat.simps [of b] str_nat_nonempty)
    next
      case False
      with a "1.prems" have e: "str_nat (a div 10) = str_nat (b div 10)"
        and d: "digit (a mod 10) = digit (b mod 10)"
        by (simp_all add: str_nat.simps [of a] str_nat.simps [of b])
      from "1.IH" [OF a e] have "a div 10 = b div 10" .
      moreover from d have "a mod 10 = b mod 10"
        by (intro digit_inj) simp_all
      ultimately show ?thesis
        by (metis div_mult_mod_eq)
    qed
  qed
qed

lemma map_of_rev_distinct:
  "distinct (map fst xs) \<Longrightarrow> map_of (rev xs) = map_of xs"
  by (metis distinct_rev map_of_inject_set rev_map set_rev)

lemma map_of_chain:
  assumes "distinct fs" and "j < length fs"
  shows "map_of (map (\<lambda>k. (Sig (fs ! k), R k)) [0..<length fs]) (Sig (fs ! j)) = Some (R j)"
proof -
  have "map_of (map (\<lambda>k. (Sig (fs ! k), R k)) [0..<length fs]) =
        map_of (zip (map Sig fs) (map R [0..<length fs]))"
    by (rule arg_cong [of _ _ map_of], rule nth_equalityI) simp_all
  moreover have "distinct (map Sig fs)"
    using assms(1) by (simp add: distinct_map inj_on_def)
  ultimately show ?thesis
    using assms(2) map_of_zip_nth [of "map Sig fs" "map R [0..<length fs]" j] by simp
qed

lemma tick_apply:
  "map_of (rev (drivers m d)) x = Some r \<Longrightarrow> tick m d \<sigma> x = fit x r (eval \<sigma> r)"
  by (simp add: tick_def)

lemma chain_run:
  assumes ds: "drivers m d =
      map (\<lambda>k. (Sig (fs ! k), if k = 0 then Const 0 else Sig (fs ! (k - 1)))) [0..<length fs]"
    and dist: "distinct fs"
    and one: "\<forall>k<length fs. sig_width (fs ! k) = 1 \<and> \<not> sig_signed (fs ! k) \<and>
                sig_reset (fs ! k) = 1"
    and j: "j < length fs"
  shows "((tick m d ^^ n) (in_reset m d \<sigma>)) (Sig (fs ! j)) = (if j < n then 0 else 1)"
  using j
proof (induction n arbitrary: j)
  case 0
  have "map_of (drivers m d) (Sig (fs ! j)) \<noteq> None"
    unfolding ds
    using map_of_chain [OF dist 0, of "\<lambda>k. if k = 0 then Const 0 else Sig (fs ! (k - 1))"]
    by simp
  then show ?case
    using one 0 by (simp add: in_reset_def)
next
  case (Suc n)
  let ?s = "(tick m d ^^ n) (in_reset m d \<sigma>)"
  have dd: "distinct (map fst (drivers m d))"
    unfolding ds using dist by (simp add: comp_def distinct_map inj_on_def nth_eq_iff_index_eq)
  have lk: "map_of (rev (drivers m d)) (Sig (fs ! j)) =
      Some (if j = 0 then Const 0 else Sig (fs ! (j - 1)))"
    unfolding map_of_rev_distinct [OF dd] unfolding ds
    using map_of_chain [OF dist Suc.prems,
        of "\<lambda>k. if k = 0 then Const 0 else Sig (fs ! (k - 1))"]
    by simp
  have w: "len (Sig (fs ! j)) = 1"
    using one Suc.prems by simp
  have st: "((tick m d ^^ Suc n) (in_reset m d \<sigma>)) (Sig (fs ! j)) =
      fit (Sig (fs ! j)) (if j = 0 then Const 0 else Sig (fs ! (j - 1)))
        (eval ?s (if j = 0 then Const 0 else Sig (fs ! (j - 1))))"
    using tick_apply [OF lk, of ?s] by simp
  show ?case
  proof (cases "j = 0")
    case True
    then show ?thesis
      unfolding st using w by (simp add: fit_def)
  next
    case False
    then have p: "j - 1 < length fs" using Suc.prems by simp
    have v: "?s (Sig (fs ! (j - 1))) = (if j - 1 < n then 0 else 1)"
      by (rule Suc.IH [OF p])
    have u: "\<not> sig_signed (fs ! (j - 1))" "sig_width (fs ! (j - 1)) = 1"
      using one p by simp_all
    show ?thesis
      unfolding st using w False u v by (auto simp: fit_def)
  qed
qed

lemma stages_distinct:
  assumes "\<forall>k<length fs. sig_name (fs ! k) = ''stage'' @ str_nat k"
  shows "distinct fs"
  unfolding distinct_conv_nth
proof (intro allI impI)
  fix i j
  assume i: "i < length fs" and j: "j < length fs" and ne: "i \<noteq> j"
  show "fs ! i \<noteq> fs ! j"
  proof
    assume "fs ! i = fs ! j"
    then have "sig_name (fs ! i) = sig_name (fs ! j)" by simp
    with assms i j have "str_nat i = str_nat j" by simp
    with ne show False by (auto dest: str_nat_inj)
  qed
qed

lemma clocked_drivers:
  assumes "clock_of m d = c" and "d \<noteq> ''comb''"
    and "\<forall>x\<in>set (statements m). fst x = d \<or> fst x = ''comb''"
  shows "clocked m c = drivers m d"
proof -
  have "filter (\<lambda>(d', st). d' \<noteq> ''comb'' \<and> clock_of m d' = c) (statements m) =
        filter (\<lambda>(d', st). d' = d) (statements m)"
  proof (rule filter_cong [OF refl])
    fix x
    assume x: "x \<in> set (statements m)"
    obtain d' st where p: "x = (d', st)"
      by (cases x)
    from assms(3) x p have "d' = d \<or> d' = ''comb''"
      by fastforce
    with assms(1,2) show "(case x of (d', st) \<Rightarrow> d' \<noteq> ''comb'' \<and> clock_of m d' = c) =
                          (case x of (d', st) \<Rightarrow> d' = d)"
      unfolding p by blast
  qed
  then show ?thesis
    by (simp add: clocked_def drivers_def)
qed

lemma clock_edge_tick:
  "clocked m c = drivers m d \<Longrightarrow> clock_edge m c = tick m d"
  by (simp add: clock_edge_def tick_def fun_eq_iff)

text \<open>
  C10. For every call of \<^verbatim>\<open>get_async_ff_sync\<close> with a stage count S of at least 1, whatever
  the shape of the input: every stage signal is one bit wide; the data input of stage 0 is
  the constant 0; and, starting from the private domain in reset (every stage at its reset
  value 1), after n clock edges with the reset released the last stage is 1 while n < S and 0
  from n = S on. The output is driven combinationally from the last stage.

  These clock edges are the edges of the target domain's clock: the module drives
  \<^verbatim>\<open>ClockSignal("async_ff")\<close> combinationally from \<^verbatim>\<open>ClockSignal(o_domain)\<close>, and from nothing
  else, so that the two clocks are equal wherever the combinational statements hold and the
  clock of the private domain is the clock of the target domain; the chain is what that
  clock drives in the module, and after n edges of the target domain's clock the last stage
  is 1 while n < S and 0 from n = S on. The reset of the private domain is driven
  combinationally from the source, inverted unless the edge is \<^verbatim>\<open>"pos"\<close>.
\<close>

theorem async_ff_sync_fall:
  assumes "0 < aff_stages s"
  shows "\<exists>flops m. async_ff_sync_flops s = Inr flops \<and> get_async_ff_sync s = Inr m \<and>
           length flops = aff_stages s \<and>
           (\<forall>k<aff_stages s. sig_width (flops ! k) = 1) \<and>
           map_of (drivers m ''async_ff'') (Sig (flops ! 0)) = Some (Const 0) \<and>
           (\<forall>n \<sigma>. eval ((tick m ''async_ff'' ^^ n) (in_reset m ''async_ff'' \<sigma>))
                     (Sig (flops ! (aff_stages s - 1))) =
                   (if n < aff_stages s then 1 else 0)) \<and>
           (\<forall>\<sigma>. comb_holds m \<sigma> \<longrightarrow>
                eval \<sigma> (Sig (aff_o s)) =
                  fit (Sig (aff_o s)) (Sig (flops ! (aff_stages s - 1)))
                    (eval \<sigma> (Sig (flops ! (aff_stages s - 1))))) \<and>
           filter (\<lambda>(d, st). \<exists>r. st = Assign (ClockSignal ''async_ff'') r) (statements m) =
             [(''comb'', Assign (ClockSignal ''async_ff'') (ClockSignal (aff_o_domain s)))] \<and>
           map_of (drivers m ''comb'') (ClockSignal ''async_ff'') =
             Some (ClockSignal (aff_o_domain s)) \<and>
           map_of (drivers m ''comb'') (ResetSignal ''async_ff'') =
             Some (if aff_edge s = ''pos'' then aff_i s else Invert (aff_i s)) \<and>
           (\<forall>\<sigma>. comb_holds m \<sigma> \<longrightarrow>
                eval \<sigma> (ClockSignal ''async_ff'') = eval \<sigma> (ClockSignal (aff_o_domain s))) \<and>
           clock_of m ''async_ff'' = ClockSignal (aff_o_domain s) \<and>
           clocked m (ClockSignal (aff_o_domain s)) = drivers m ''async_ff'' \<and>
           (\<forall>n \<sigma>. eval ((clock_edge m (ClockSignal (aff_o_domain s)) ^^ n)
                         (in_reset m ''async_ff'' \<sigma>))
                     (Sig (flops ! (aff_stages s - 1))) =
                   (if n < aff_stages s then 1 else 0))"
proof -
  from async_ff_sync_module [OF assms] obtain flops where
    f: "async_ff_sync_flops s = Inr flops" and l: "length flops = aff_stages s"
    and m: "get_async_ff_sync s =
             Inr \<lparr>submodules = [],
                  domains = [\<lparr>cd_name = ''async_ff'', cd_async_reset = True, cd_local = True\<rparr>],
                  statements =
                    map (\<lambda>k. (''async_ff'',
                           Assign (Sig (flops ! k))
                             (if k = 0 then Const 0 else Sig (flops ! (k - 1)))))
                      [0..<aff_stages s] @
                    [(''comb'', Assign (ResetSignal ''async_ff'')
                        (if aff_edge s = ''pos'' then aff_i s else Invert (aff_i s))),
                     (''comb'', Assign (ClockSignal ''async_ff'') (ClockSignal (aff_o_domain s))),
                     (''comb'', Assign (Sig (aff_o s)) (Sig (flops ! (aff_stages s - 1))))]\<rparr>"
      (is "_ = Inr ?m")
    and a: "\<forall>k<aff_stages s.
              sig_name (flops ! k) = ''stage'' @ str_nat k \<and> sig_width (flops ! k) = 1 \<and>
              \<not> sig_signed (flops ! k) \<and> sig_reset (flops ! k) = 1"
    by blast
  have dist: "distinct flops"
    using a l by (intro stages_distinct) simp
  have ds: "drivers ?m ''async_ff'' =
      map (\<lambda>k. (Sig (flops ! k), if k = 0 then Const 0 else Sig (flops ! (k - 1))))
        [0..<length flops]"
    by (simp add: drivers_def filter_map comp_def l)
  have dc: "drivers ?m ''comb'' =
      [(ResetSignal ''async_ff'', if aff_edge s = ''pos'' then aff_i s else Invert (aff_i s)),
       (ClockSignal ''async_ff'', ClockSignal (aff_o_domain s)),
       (Sig (aff_o s), Sig (flops ! (aff_stages s - 1)))]"
    by (simp add: drivers_def filter_map comp_def)
  have one: "\<forall>k<length flops. sig_width (flops ! k) = 1 \<and> \<not> sig_signed (flops ! k) \<and>
                sig_reset (flops ! k) = 1"
    using a l by simp
  have last: "aff_stages s - 1 < length flops" and zero: "0 < length flops"
    using assms l by simp_all
  have 1: "\<forall>k<aff_stages s. sig_width (flops ! k) = 1"
    using a by simp
  have 2: "map_of (drivers ?m ''async_ff'') (Sig (flops ! 0)) = Some (Const 0)"
    unfolding ds
    using map_of_chain [OF dist zero, of "\<lambda>k. if k = 0 then Const 0 else Sig (flops ! (k - 1))"]
    by simp
  have 3: "eval ((tick ?m ''async_ff'' ^^ n) (in_reset ?m ''async_ff'' \<sigma>))
                     (Sig (flops ! (aff_stages s - 1))) =
                   (if n < aff_stages s then 1 else 0)" for n \<sigma>
    using chain_run [OF ds dist one last, of n \<sigma>] one last assms
    by (auto simp: l)
  have 4: "eval \<sigma> (Sig (aff_o s)) =
                  fit (Sig (aff_o s)) (Sig (flops ! (aff_stages s - 1)))
                    (eval \<sigma> (Sig (flops ! (aff_stages s - 1))))"
    if "comb_holds ?m \<sigma>" for \<sigma>
    using that unfolding comb_holds_def dc by simp
  have 5: "filter (\<lambda>(d, st). \<exists>r. st = Assign (ClockSignal ''async_ff'') r) (statements ?m) =
             [(''comb'', Assign (ClockSignal ''async_ff'') (ClockSignal (aff_o_domain s)))]"
    by (simp add: filter_map comp_def)
  have 6: "map_of (drivers ?m ''comb'') (ClockSignal ''async_ff'') =
             Some (ClockSignal (aff_o_domain s))"
    unfolding dc by simp
  have 7: "map_of (drivers ?m ''comb'') (ResetSignal ''async_ff'') =
             Some (if aff_edge s = ''pos'' then aff_i s else Invert (aff_i s))"
    unfolding dc by simp
  have 8: "eval \<sigma> (ClockSignal ''async_ff'') = eval \<sigma> (ClockSignal (aff_o_domain s))"
    if "comb_holds ?m \<sigma>" for \<sigma>
    using that unfolding comb_holds_def dc by (simp add: fit_def)
  have 9: "clock_of ?m ''async_ff'' = ClockSignal (aff_o_domain s)"
    unfolding clock_of_def 6 by simp
  have st: "\<forall>x\<in>set (statements ?m). fst x = ''async_ff'' \<or> fst x = ''comb''"
    by auto
  have ne: "''async_ff'' \<noteq> ''comb''"
    by simp
  have 10: "clocked ?m (ClockSignal (aff_o_domain s)) = drivers ?m ''async_ff''"
    by (rule clocked_drivers [OF 9 ne st])
  have 11: "eval ((clock_edge ?m (ClockSignal (aff_o_domain s)) ^^ n)
                         (in_reset ?m ''async_ff'' \<sigma>))
                     (Sig (flops ! (aff_stages s - 1))) =
                   (if n < aff_stages s then 1 else 0)" for n \<sigma>
    unfolding clock_edge_tick [OF 10] by (rule 3)
  from f m l 1 2 3 4 5 6 7 8 9 10 11 show ?thesis by blast
qed

theorem async_ff_sync_fall_witness:
  "0 < aff_stages async2 \<and>
   (\<exists>flops m. async_ff_sync_flops async2 = Inr flops \<and> get_async_ff_sync async2 = Inr m \<and>
      length flops = 2 \<and> sig_width (flops ! 0) = 1 \<and> sig_width (flops ! 1) = 1 \<and>
      eval ((tick m ''async_ff'' ^^ 1) (in_reset m ''async_ff'' (\<lambda>x. 0))) (Sig (flops ! 1)) = 1 \<and>
      eval ((tick m ''async_ff'' ^^ 2) (in_reset m ''async_ff'' (\<lambda>x. 0))) (Sig (flops ! 1)) = 0 \<and>
      map_of (drivers m ''comb'') (ClockSignal ''async_ff'') = Some (ClockSignal ''sync'') \<and>
      clock_of m ''async_ff'' = ClockSignal ''sync'' \<and>
      eval ((clock_edge m (ClockSignal ''sync'') ^^ 1) (in_reset m ''async_ff'' (\<lambda>x. 0)))
        (Sig (flops ! 1)) = 1 \<and>
      eval ((clock_edge m (ClockSignal ''sync'') ^^ 2) (in_reset m ''async_ff'' (\<lambda>x. 0)))
        (Sig (flops ! 1)) = 0)"
proof -
  have h: "0 < aff_stages async2" by (simp add: async2_def)
  have n: "aff_stages async2 = 2" by (simp add: async2_def)
  have d: "aff_o_domain async2 = ''sync''" by (simp add: async2_def)
  from async_ff_sync_fall [OF h] obtain flops m where
    1: "async_ff_sync_flops async2 = Inr flops" "get_async_ff_sync async2 = Inr m"
      "length flops = 2"
    and 2: "\<forall>k<2. sig_width (flops ! k) = 1"
    and 3: "\<forall>n \<sigma>. eval ((tick m ''async_ff'' ^^ n) (in_reset m ''async_ff'' \<sigma>))
                     (Sig (flops ! (2 - 1))) = (if n < 2 then 1 else 0)"
    and 4: "map_of (drivers m ''comb'') (ClockSignal ''async_ff'') = Some (ClockSignal ''sync'')"
      "clock_of m ''async_ff'' = ClockSignal ''sync''"
    and 5: "\<forall>n \<sigma>. eval ((clock_edge m (ClockSignal ''sync'') ^^ n) (in_reset m ''async_ff'' \<sigma>))
                     (Sig (flops ! (2 - 1))) = (if n < 2 then 1 else 0)"
    unfolding n d by blast
  from 2 have w: "sig_width (flops ! 0) = 1" "sig_width (flops ! 1) = 1" by simp_all
  from 3 [rule_format, of 1 "\<lambda>x. 0"] 3 [rule_format, of 2 "\<lambda>x. 0"]
  have e: "eval ((tick m ''async_ff'' ^^ 1) (in_reset m ''async_ff'' (\<lambda>x. 0))) (Sig (flops ! 1)) = 1"
    "eval ((tick m ''async_ff'' ^^ 2) (in_reset m ''async_ff'' (\<lambda>x. 0))) (Sig (flops ! 1)) = 0"
    by simp_all
  from 5 [rule_format, of 1 "\<lambda>x. 0"] 5 [rule_format, of 2 "\<lambda>x. 0"]
  have c: "eval ((clock_edge m (ClockSignal ''sync'') ^^ 1) (in_reset m ''async_ff'' (\<lambda>x. 0)))
             (Sig (flops ! 1)) = 1"
    "eval ((clock_edge m (ClockSignal ''sync'') ^^ 2) (in_reset m ''async_ff'' (\<lambda>x. 0)))
             (Sig (flops ! 1)) = 0"
    by simp_all
  from h 1 w e 4 c show ?thesis by blast
qed


section \<open>Properties of the platform object\<close>

subsection \<open>The toolchain profile and add\_clock\_constraint\<close>

lemma init_Inr:
  "init si tc = Inr p \<longleftrightarrow>
     (\<exists>b. si = Inr b \<and> (tc = ''Vivado'' \<or> tc = ''Symbiflow'') \<and> p = \<lparr>toolchain = tc, base = b\<rparr>)"
  by (cases si) (auto simp: init_def)

lemma add_clock_constraint_Inr:
  "add_clock_constraint super w clock f = Inr w' \<longleftrightarrow>
     (\<exists>b. super (base (plat w)) clock f = Inr b \<and>
          w' = w\<lparr>plat := (plat w)\<lparr>base := b\<rparr>,
                 signals := (signals w)(clock := set_attr (signals w clock) ''keep'' (Str ''TRUE''))\<rparr>)"
  by (cases "super (base (plat w)) clock f") (auto simp: add_clock_constraint_def)

text \<open>
  C5. Construction returns a platform only for the toolchain names \<open>''Vivado''\<close> and
  \<open>''Symbiflow''\<close> (and does return one for these when the base constructor returns); for
  any other name it raises, whatever the base constructor did. On the platform constructed
  for a name, \<^verbatim>\<open>required_tools\<close>, \<^verbatim>\<open>file_templates\<close> and \<^verbatim>\<open>command_templates\<close> return the
  tables of that name, the required tools and the command templates of the two profiles
  being different; and they return the same after \<^verbatim>\<open>add_clock_constraint\<close>, the one
  method here that changes the platform, since it leaves the toolchain name alone.
\<close>

theorem toolchain_profile:
  "(tc \<noteq> ''Vivado'' \<and> tc \<noteq> ''Symbiflow'' \<longrightarrow> (\<exists>e. init si tc = Inl e)) \<and>
   (tc = ''Vivado'' \<or> tc = ''Symbiflow'' \<longrightarrow> init (Inr b) tc = Inr \<lparr>toolchain = tc, base = b\<rparr>) \<and>
   (init si tc = Inr p \<longrightarrow>
      (tc = ''Vivado'' \<or> tc = ''Symbiflow'') \<and> toolchain p = tc \<and>
      required_tools p =
        Inr (if tc = ''Vivado'' then vivado_required_tools else symbiflow_required_tools) \<and>
      file_templates bst p =
        Inr (if tc = ''Vivado'' then vivado_file_templates bst else symbiflow_file_templates bst) \<and>
      command_templates p =
        Inr (if tc = ''Vivado'' then vivado_command_templates else symbiflow_command_templates) \<and>
      (\<forall>super sg clock f w'.
         add_clock_constraint super \<lparr>plat = p, signals = sg\<rparr> clock f = Inr w' \<longrightarrow>
           toolchain (plat w') = tc \<and>
           required_tools (plat w') = required_tools p \<and>
           file_templates bst (plat w') = file_templates bst p \<and>
           command_templates (plat w') = command_templates p)) \<and>
   vivado_required_tools \<noteq> symbiflow_required_tools \<and>
   vivado_command_templates \<noteq> symbiflow_command_templates"
proof (intro conjI impI)
  assume "tc \<noteq> ''Vivado'' \<and> tc \<noteq> ''Symbiflow''"
  then show "\<exists>e. init si tc = Inl e"
    by (cases si) (auto simp: init_def)
next
  assume "tc = ''Vivado'' \<or> tc = ''Symbiflow''"
  then show "init (Inr b) tc = Inr \<lparr>toolchain = tc, base = b\<rparr>"
    by (auto simp: init_def)
next
  assume i: "init si tc = Inr p"
  then obtain b where t: "tc = ''Vivado'' \<or> tc = ''Symbiflow''"
    and p: "p = \<lparr>toolchain = tc, base = b\<rparr>"
    unfolding init_Inr by blast
  show "tc = ''Vivado'' \<or> tc = ''Symbiflow''" by (rule t)
  show "toolchain p = tc" using p by simp
  show "required_tools p =
        Inr (if tc = ''Vivado'' then vivado_required_tools else symbiflow_required_tools)"
    using t p by (auto simp: required_tools_def)
  show "file_templates bst p =
        Inr (if tc = ''Vivado'' then vivado_file_templates bst else symbiflow_file_templates bst)"
    using t p by (auto simp: file_templates_def)
  show "command_templates p =
        Inr (if tc = ''Vivado'' then vivado_command_templates else symbiflow_command_templates)"
    using t p by (auto simp: command_templates_def)
  show "\<forall>super sg clock f w'.
         add_clock_constraint super \<lparr>plat = p, signals = sg\<rparr> clock f = Inr w' \<longrightarrow>
           toolchain (plat w') = tc \<and>
           required_tools (plat w') = required_tools p \<and>
           file_templates bst (plat w') = file_templates bst p \<and>
           command_templates (plat w') = command_templates p"
    using p
    by (auto simp: add_clock_constraint_Inr required_tools_def file_templates_def
          command_templates_def)
next
  show "vivado_required_tools \<noteq> symbiflow_required_tools"
    by (simp add: vivado_required_tools_def symbiflow_required_tools_def)
  show "vivado_command_templates \<noteq> symbiflow_command_templates"
    by (simp add: vivado_command_templates_def symbiflow_command_templates_def)
qed

theorem toolchain_profile_witness:
  "init (Inr ()) ''Symbiflow'' = Inr \<lparr>toolchain = ''Symbiflow'', base = ()\<rparr> \<and>
   required_tools \<lparr>toolchain = ''Symbiflow'', base = ()\<rparr> = Inr symbiflow_required_tools \<and>
   command_templates \<lparr>toolchain = ''Symbiflow'', base = ()\<rparr> = Inr symbiflow_command_templates \<and>
   (\<exists>e. init (Inr ()) ''ISE'' = (Inl e :: error + unit platform))"
proof -
  note t = toolchain_profile [where tc = "''Symbiflow''" and si = "Inr ()" and b = "()"
      and p = "\<lparr>toolchain = ''Symbiflow'', base = ()\<rparr>" and bst = "[] :: (string \<times> unit) list"]
  have 1: "init (Inr ()) ''Symbiflow'' = Inr \<lparr>toolchain = ''Symbiflow'', base = ()\<rparr>"
    using t by simp
  have 2: "required_tools \<lparr>toolchain = ''Symbiflow'', base = ()\<rparr> = Inr symbiflow_required_tools"
    "command_templates \<lparr>toolchain = ''Symbiflow'', base = ()\<rparr> = Inr symbiflow_command_templates"
    using t 1 by simp_all
  have 3: "\<exists>e. init (Inr ()) ''ISE'' = (Inl e :: error + unit platform)"
    using toolchain_profile [where tc = "''ISE''" and si = "Inr ()" and b = "()"
      and p = "\<lparr>toolchain = ''Symbiflow'', base = ()\<rparr>" and bst = "[] :: (string \<times> unit) list"]
    by simp
  from 1 2 3 show ?thesis by blast
qed

text \<open>
  C6. Whenever the registration with the base platform returns, \<^verbatim>\<open>add_clock_constraint\<close>
  returns, and afterwards the attributes of the clock signal have \<open>keep\<close> = \<open>TRUE\<close>; the
  base state is the one the registration produced; the other attributes of the clock, every
  other signal and the toolchain are as before. When the registration raises, the call
  raises the same exception.
\<close>

theorem clock_constraint_keep:
  "(super (base (plat w)) clock frequency = Inr b \<longrightarrow>
      (\<exists>w'. add_clock_constraint super w clock frequency = Inr w' \<and>
         map_of (sig_attrs (signals w' clock)) ''keep'' = Some (Str ''TRUE'') \<and>
         base (plat w') = b \<and> toolchain (plat w') = toolchain (plat w) \<and>
         (\<forall>k. k \<noteq> ''keep'' \<longrightarrow>
            map_of (sig_attrs (signals w' clock)) k = map_of (sig_attrs (signals w clock)) k) \<and>
         (\<forall>c. c \<noteq> clock \<longrightarrow> signals w' c = signals w c))) \<and>
   (super (base (plat w)) clock frequency = Inl e \<longrightarrow>
      add_clock_constraint super w clock frequency = Inl e)"
  by (auto simp: add_clock_constraint_def set_attr_def update_conv')

theorem clock_constraint_keep_witness:
  "register_clock [] 7 100000000 = Inr [(7, 100000000)] \<and>
   (\<exists>w'. add_clock_constraint register_clock
             \<lparr>plat = \<lparr>toolchain = ''Vivado'', base = []\<rparr>, signals = (\<lambda>a. Signal 1 ''clk'')\<rparr>
             7 100000000 = Inr w' \<and>
      map_of (sig_attrs (signals w' 7)) ''keep'' = Some (Str ''TRUE'') \<and>
      base (plat w') = [(7, 100000000)])"
proof -
  have h: "register_clock [] 7 100000000 = Inr [(7, 100000000)]"
    by (simp add: register_clock_def)
  from clock_constraint_keep
    [of register_clock "\<lparr>plat = \<lparr>toolchain = ''Vivado'', base = []\<rparr>, signals = (\<lambda>a. Signal 1 ''clk'')\<rparr>"
        7 100000000 "[(7, 100000000)]"] h
  show ?thesis by auto
qed

subsection \<open>Clock constraints in the rendered artifacts\<close>

lemma vivado_xdc_clocks_ok:
  "\<forall>c\<in>set facts. cf_frequency c \<noteq> 0 \<Longrightarrow>
   vivado_xdc_clocks facts =
     Inr (map (\<lambda>c. case port_signal c of
                  Some port \<Rightarrow> \<lparr>cc_name = Some (sig_name port),
                                 cc_period = 1000000000 / cf_frequency c,
                                 cc_target = Get_ports (sig_name port)\<rparr>
                | None \<Rightarrow> \<lparr>cc_name = Some (sig_name (net_signal c)),
                            cc_period = 1000000000 / cf_frequency c,
                            cc_target = Get_nets (net_signal c)\<rparr>) facts)"
  by (induction facts) (simp_all add: py_div_def)

lemma symbiflow_sdc_clocks_ok:
  "\<forall>c\<in>set facts. port_signal c = None \<longrightarrow> cf_frequency c \<noteq> 0 \<Longrightarrow>
   symbiflow_sdc_clocks facts =
     Inr (map (\<lambda>c. \<lparr>cc_name = None, cc_period = 1000000000 / cf_frequency c,
                     cc_target = Net_name (sig_name (net_signal c))\<rparr>)
            (filter (\<lambda>c. port_signal c = None) facts))"
  by (induction facts) (simp_all add: py_div_def)

lemma map_of_vivado_file_templates:
  "map_of (vivado_file_templates bst) =
     (map_option Inherited \<circ> map_of bst)
       (''build_{{name}}.sh'' \<mapsto> Vivado_build_sh, ''{{name}}.v'' \<mapsto> Emit_verilog,
        ''{{name}}.debug.v'' \<mapsto> Emit_debug_verilog, ''{{name}}.tcl'' \<mapsto> Vivado_tcl,
        ''{{name}}.xdc'' \<mapsto> Vivado_xdc)"
  by (simp add: vivado_file_templates_def dict_extend_def update_conv' map_of_map)

lemma map_of_symbiflow_file_templates:
  "map_of (symbiflow_file_templates bst) =
     (map_option Inherited \<circ> map_of bst)
       (''{{name}}.v'' \<mapsto> Emit_verilog, ''{{name}}.debug.v'' \<mapsto> Emit_debug_verilog,
        ''{{name}}.pcf'' \<mapsto> Symbiflow_pcf, ''{{name}}.xdc'' \<mapsto> Symbiflow_xdc,
        ''{{name}}.sdc'' \<mapsto> Symbiflow_sdc)"
  by (simp add: symbiflow_file_templates_def dict_extend_def update_conv' map_of_map)

lemma clock_lines_vivado:
  "toolchain p = ''Vivado'' \<Longrightarrow>
   clock_lines bst p artifact facts =
     (if artifact = ''{{name}}.xdc'' then vivado_xdc_clocks facts else Inr [])"
  by (cases "map_of bst artifact")
     (simp_all add: clock_lines_def file_templates_def map_of_vivado_file_templates)

lemma clock_lines_symbiflow:
  "toolchain p = ''Symbiflow'' \<Longrightarrow>
   clock_lines bst p artifact facts =
     (if artifact = ''{{name}}.sdc'' then symbiflow_sdc_clocks facts else Inr [])"
  by (cases "map_of bst artifact")
     (simp_all add: clock_lines_def file_templates_def map_of_symbiflow_file_templates)

text \<open>
  C4 (amended). Under the Vivado profile \<^verbatim>\<open>{{name}}.xdc\<close> has one \<^verbatim>\<open>create_clock\<close> line for
  every clock-constraint fact, in order, with period 1000000000 / frequency: on the port
  when the fact has a port signal, on the net otherwise. Under the Symbiflow profile
  \<^verbatim>\<open>{{name}}.sdc\<close> has such a line, on the net, for exactly the facts that have no port
  signal, and no other Symbiflow artifact has a \<^verbatim>\<open>create_clock\<close> line: a fact with a port
  signal is not emitted. (The frequencies divided by are taken to be nonzero: the division
  raises at 0.)
\<close>

theorem clock_constraint_lines:
  "(toolchain p = ''Vivado'' \<and> (\<forall>c\<in>set facts. cf_frequency c \<noteq> 0) \<longrightarrow>
      clock_lines bst p ''{{name}}.xdc'' facts =
        Inr (map (\<lambda>c. case port_signal c of
                     Some port \<Rightarrow> \<lparr>cc_name = Some (sig_name port),
                                    cc_period = 1000000000 / cf_frequency c,
                                    cc_target = Get_ports (sig_name port)\<rparr>
                   | None \<Rightarrow> \<lparr>cc_name = Some (sig_name (net_signal c)),
                               cc_period = 1000000000 / cf_frequency c,
                               cc_target = Get_nets (net_signal c)\<rparr>) facts)) \<and>
   (toolchain p = ''Symbiflow'' \<and> (\<forall>c\<in>set facts. port_signal c = None \<longrightarrow> cf_frequency c \<noteq> 0) \<longrightarrow>
      clock_lines bst p ''{{name}}.sdc'' facts =
        Inr (map (\<lambda>c. \<lparr>cc_name = None, cc_period = 1000000000 / cf_frequency c,
                        cc_target = Net_name (sig_name (net_signal c))\<rparr>)
               (filter (\<lambda>c. port_signal c = None) facts)) \<and>
      (\<forall>artifact. artifact \<noteq> ''{{name}}.sdc'' \<longrightarrow> clock_lines bst p artifact facts = Inr []))"
  by (simp add: clock_lines_vivado clock_lines_symbiflow vivado_xdc_clocks_ok
        symbiflow_sdc_clocks_ok)

theorem clock_constraint_lines_witness:
  "clock_lines ([] :: (string \<times> unit) list) \<lparr>toolchain = ''Vivado'', base = ()\<rparr> ''{{name}}.xdc''
     [clk100_port, clk100_net] =
     Inr [\<lparr>cc_name = Some ''clk100__io'', cc_period = 10, cc_target = Get_ports ''clk100__io''\<rparr>,
          \<lparr>cc_name = Some ''clk'', cc_period = 10, cc_target = Get_nets (Signal 1 ''clk'')\<rparr>] \<and>
   clock_lines ([] :: (string \<times> unit) list) \<lparr>toolchain = ''Symbiflow'', base = ()\<rparr> ''{{name}}.sdc''
     [clk100_port, clk100_net] =
     Inr [\<lparr>cc_name = None, cc_period = 10, cc_target = Net_name ''clk''\<rparr>]"
proof -
  have 1: "clock_lines ([] :: (string \<times> unit) list) \<lparr>toolchain = ''Vivado'', base = ()\<rparr>
      ''{{name}}.xdc'' [clk100_port, clk100_net] =
     Inr [\<lparr>cc_name = Some ''clk100__io'', cc_period = 10, cc_target = Get_ports ''clk100__io''\<rparr>,
          \<lparr>cc_name = Some ''clk'', cc_period = 10, cc_target = Get_nets (Signal 1 ''clk'')\<rparr>]"
    using clock_constraint_lines [where p = "\<lparr>toolchain = ''Vivado'', base = ()\<rparr>"
        and facts = "[clk100_port, clk100_net]" and bst = "[] :: (string \<times> unit) list"]
    by (simp add: clk100_port_def clk100_net_def Signal_def)
  have 2: "clock_lines ([] :: (string \<times> unit) list) \<lparr>toolchain = ''Symbiflow'', base = ()\<rparr>
      ''{{name}}.sdc'' [clk100_port, clk100_net] =
     Inr [\<lparr>cc_name = None, cc_period = 10, cc_target = Net_name ''clk''\<rparr>]"
    using clock_constraint_lines [where p = "\<lparr>toolchain = ''Symbiflow'', base = ()\<rparr>"
        and facts = "[clk100_port, clk100_net]" and bst = "[] :: (string \<times> unit) list"]
    by (simp add: clk100_port_def clk100_net_def Signal_def)
  from 1 2 show ?thesis by (rule conjI)
qed

text \<open>
  C4 as stated fails under the Symbiflow profile for a port-keyed fact: with the one fact
  \<open>clk100_port\<close>, \<^verbatim>\<open>{{name}}.sdc\<close> and \<^verbatim>\<open>{{name}}.xdc\<close> have no \<^verbatim>\<open>create_clock\<close> line, and
  neither has any other artifact of the profile.
\<close>

theorem symbiflow_port_clock_counterexample:
  "port_signal clk100_port \<noteq> None \<and> cf_frequency clk100_port = 100000000 \<and>
   clock_lines ([] :: (string \<times> unit) list) \<lparr>toolchain = ''Symbiflow'', base = ()\<rparr>
     ''{{name}}.sdc'' [clk100_port] = Inr [] \<and>
   clock_lines ([] :: (string \<times> unit) list) \<lparr>toolchain = ''Symbiflow'', base = ()\<rparr>
     ''{{name}}.xdc'' [clk100_port] = Inr [] \<and>
   \<not> (\<exists>artifact ls l.
        clock_lines ([] :: (string \<times> unit) list) \<lparr>toolchain = ''Symbiflow'', base = ()\<rparr>
          artifact [clk100_port] = Inr ls \<and> l \<in> set ls)"
  by (simp add: clock_lines_symbiflow clk100_port_def)

end
